theory Spec2Isabelle
  imports Complex_Main
begin

section \<open>Strings of the query string\<close>

text \<open>
  The handlers receive their input as query parameters of the request URL. The URL
  carries a parameter as percent-encoded UTF-8, and \<open>searchParams.get\<close> decodes it into a
  JavaScript string, or returns \<open>null\<close> for a parameter that is not there. The model
  keeps the decoded string in its UTF-8 form: a \<^typ>\<open>string\<close> is the list of the bytes
  that encode the JavaScript string, and \<^term>\<open>None :: string option\<close> is \<open>null\<close>. Every
  string that \<open>get\<close> can return has such a form, since decoding a URL yields no lone
  surrogate. So \<open>tickers=%C2%A0\<close>, a no-break space, is the string of the two bytes
  \<open>C2 A0\<close>. The string operations that the handlers call work on code points, which are
  the units of the encoded string.
\<close>

definition is_continuation :: "char \<Rightarrow> bool" where
  "is_continuation c = (128 \<le> (of_char c :: nat) \<and> (of_char c :: nat) < 192)"

text \<open>
  The units of a string: a new unit starts at every byte that is not a continuation
  byte. In well-formed UTF-8 these are the encodings of the code points, in order.
\<close>

fun utf8_units :: "string \<Rightarrow> string list" where
  "utf8_units [] = []"
| "utf8_units (c # cs) =
     (case utf8_units cs of
        [] \<Rightarrow> [[c]]
      | [] # us \<Rightarrow> [c] # us
      | (d # ds) # us \<Rightarrow> if is_continuation d then (c # d # ds) # us else [c] # (d # ds) # us)"

text \<open>
  The code point that a unit encodes, for a unit that is well formed: of the shortest
  length for its code point, no surrogate, and at most \<open>U+10FFFF\<close>.
\<close>

definition decode_unit :: "string \<Rightarrow> nat option" where
  "decode_unit u =
     (case map of_char u of
        [a] \<Rightarrow> if a < 128 then Some a else None
      | [a, b] \<Rightarrow>
          (let n = (a - 192) * 64 + (b - 128) in
           if 192 \<le> a \<and> a < 224 \<and> 128 \<le> n then Some n else None)
      | [a, b, c] \<Rightarrow>
          (let n = (a - 224) * 4096 + (b - 128) * 64 + (c - 128) in
           if 224 \<le> a \<and> a < 240 \<and> 2048 \<le> n \<and> (n < 55296 \<or> 57344 \<le> n) then Some n else None)
      | [a, b, c, d] \<Rightarrow>
          (let n = (a - 240) * 262144 + (b - 128) * 4096 + (c - 128) * 64 + (d - 128) in
           if 240 \<le> a \<and> a < 248 \<and> 65536 \<le> n \<and> n < 1114112 then Some n else None)
      | _ \<Rightarrow> None)"

definition encode_unit :: "nat \<Rightarrow> string" where
  "encode_unit n =
     map char_of
       (if n < 128 then [n]
        else if n < 2048 then [192 + n div 64, 128 + n mod 64]
        else if n < 65536 then [224 + n div 4096, 128 + n div 64 mod 64, 128 + n mod 64]
        else [240 + n div 262144, 128 + n div 4096 mod 64, 128 + n div 64 mod 64, 128 + n mod 64])"

text \<open>
  ECMAScript's WhiteSpace and LineTerminator code points: TAB, LF, VT, FF, CR, SP, the
  no-break space, the other space separators of Unicode, the line and paragraph
  separators and the byte order mark.
\<close>

definition whitespace_code_points :: "nat list" where
  "whitespace_code_points =
     [0x0009, 0x000A, 0x000B, 0x000C, 0x000D, 0x0020, 0x00A0, 0x1680,
      0x2000, 0x2001, 0x2002, 0x2003, 0x2004, 0x2005, 0x2006, 0x2007, 0x2008, 0x2009, 0x200A,
      0x2028, 0x2029, 0x202F, 0x205F, 0x3000, 0xFEFF]"

definition is_whitespace :: "string \<Rightarrow> bool" where
  "is_whitespace u =
     (case decode_unit u of None \<Rightarrow> False | Some n \<Rightarrow> n \<in> set whitespace_code_points)"

text \<open>\<open>String.prototype.trim\<close>: the white space code points are removed from both ends.\<close>

definition trim :: "string \<Rightarrow> string" where
  "trim s = concat (rev (dropWhile is_whitespace (rev (dropWhile is_whitespace (utf8_units s)))))"

text \<open>
  The case mappings of the Unicode character database, beyond ASCII, as of version 14
  (a later version maps more of the code points that this one leaves alone). An
  entry \<open>(lo, hi, step, target)\<close> of a range table maps the code points \<open>lo\<close>,
  \<open>lo + step\<close>, ... up to \<open>hi\<close> to \<open>target\<close>, \<open>target + step\<close>, ...; an entry of a
  special table maps one code point to several.
\<close>

definition upper_ranges :: "(nat \<times> nat \<times> nat \<times> nat) list" where
  "upper_ranges =
     [(0x00B5, 0x00B5, 1, 0x039C), (0x00E0, 0x00F6, 1, 0x00C0), (0x00F8, 0x00FE, 1, 0x00D8),
      (0x00FF, 0x00FF, 1, 0x0178), (0x0101, 0x012F, 2, 0x0100), (0x0131, 0x0131, 1, 0x0049),
      (0x0133, 0x0137, 2, 0x0132), (0x013A, 0x0148, 2, 0x0139), (0x014B, 0x0177, 2, 0x014A),
      (0x017A, 0x017E, 2, 0x0179), (0x017F, 0x017F, 1, 0x0053), (0x0180, 0x0180, 1, 0x0243),
      (0x0183, 0x0185, 2, 0x0182), (0x0188, 0x0188, 1, 0x0187), (0x018C, 0x018C, 1, 0x018B),
      (0x0192, 0x0192, 1, 0x0191), (0x0195, 0x0195, 1, 0x01F6), (0x0199, 0x0199, 1, 0x0198),
      (0x019A, 0x019A, 1, 0x023D), (0x019E, 0x019E, 1, 0x0220), (0x01A1, 0x01A5, 2, 0x01A0),
      (0x01A8, 0x01A8, 1, 0x01A7), (0x01AD, 0x01AD, 1, 0x01AC), (0x01B0, 0x01B0, 1, 0x01AF),
      (0x01B4, 0x01B6, 2, 0x01B3), (0x01B9, 0x01B9, 1, 0x01B8), (0x01BD, 0x01BD, 1, 0x01BC),
      (0x01BF, 0x01BF, 1, 0x01F7), (0x01C5, 0x01C5, 1, 0x01C4), (0x01C6, 0x01C6, 1, 0x01C4),
      (0x01C8, 0x01C8, 1, 0x01C7), (0x01C9, 0x01C9, 1, 0x01C7), (0x01CB, 0x01CB, 1, 0x01CA),
      (0x01CC, 0x01CC, 1, 0x01CA), (0x01CE, 0x01DC, 2, 0x01CD), (0x01DD, 0x01DD, 1, 0x018E),
      (0x01DF, 0x01EF, 2, 0x01DE), (0x01F2, 0x01F2, 1, 0x01F1), (0x01F3, 0x01F3, 1, 0x01F1),
      (0x01F5, 0x01F5, 1, 0x01F4), (0x01F9, 0x021F, 2, 0x01F8), (0x0223, 0x0233, 2, 0x0222),
      (0x023C, 0x023C, 1, 0x023B), (0x023F, 0x0240, 1, 0x2C7E), (0x0242, 0x0242, 1, 0x0241),
      (0x0247, 0x024F, 2, 0x0246), (0x0250, 0x0250, 1, 0x2C6F), (0x0251, 0x0251, 1, 0x2C6D),
      (0x0252, 0x0252, 1, 0x2C70), (0x0253, 0x0253, 1, 0x0181), (0x0254, 0x0254, 1, 0x0186),
      (0x0256, 0x0257, 1, 0x0189), (0x0259, 0x0259, 1, 0x018F), (0x025B, 0x025B, 1, 0x0190),
      (0x025C, 0x025C, 1, 0xA7AB), (0x0260, 0x0260, 1, 0x0193), (0x0261, 0x0261, 1, 0xA7AC),
      (0x0263, 0x0263, 1, 0x0194), (0x0265, 0x0265, 1, 0xA78D), (0x0266, 0x0266, 1, 0xA7AA),
      (0x0268, 0x0268, 1, 0x0197), (0x0269, 0x0269, 1, 0x0196), (0x026A, 0x026A, 1, 0xA7AE),
      (0x026B, 0x026B, 1, 0x2C62), (0x026C, 0x026C, 1, 0xA7AD), (0x026F, 0x026F, 1, 0x019C),
      (0x0271, 0x0271, 1, 0x2C6E), (0x0272, 0x0272, 1, 0x019D), (0x0275, 0x0275, 1, 0x019F),
      (0x027D, 0x027D, 1, 0x2C64), (0x0280, 0x0280, 1, 0x01A6), (0x0282, 0x0282, 1, 0xA7C5),
      (0x0283, 0x0283, 1, 0x01A9), (0x0287, 0x0287, 1, 0xA7B1), (0x0288, 0x0288, 1, 0x01AE),
      (0x0289, 0x0289, 1, 0x0244), (0x028A, 0x028B, 1, 0x01B1), (0x028C, 0x028C, 1, 0x0245),
      (0x0292, 0x0292, 1, 0x01B7), (0x029D, 0x029D, 1, 0xA7B2), (0x029E, 0x029E, 1, 0xA7B0),
      (0x0345, 0x0345, 1, 0x0399), (0x0371, 0x0373, 2, 0x0370), (0x0377, 0x0377, 1, 0x0376),
      (0x037B, 0x037D, 1, 0x03FD), (0x03AC, 0x03AC, 1, 0x0386), (0x03AD, 0x03AF, 1, 0x0388),
      (0x03B1, 0x03C1, 1, 0x0391), (0x03C2, 0x03C2, 1, 0x03A3), (0x03C3, 0x03CB, 1, 0x03A3),
      (0x03CC, 0x03CC, 1, 0x038C), (0x03CD, 0x03CE, 1, 0x038E), (0x03D0, 0x03D0, 1, 0x0392),
      (0x03D1, 0x03D1, 1, 0x0398), (0x03D5, 0x03D5, 1, 0x03A6), (0x03D6, 0x03D6, 1, 0x03A0),
      (0x03D7, 0x03D7, 1, 0x03CF), (0x03D9, 0x03EF, 2, 0x03D8), (0x03F0, 0x03F0, 1, 0x039A),
      (0x03F1, 0x03F1, 1, 0x03A1), (0x03F2, 0x03F2, 1, 0x03F9), (0x03F3, 0x03F3, 1, 0x037F),
      (0x03F5, 0x03F5, 1, 0x0395), (0x03F8, 0x03F8, 1, 0x03F7), (0x03FB, 0x03FB, 1, 0x03FA),
      (0x0430, 0x044F, 1, 0x0410), (0x0450, 0x045F, 1, 0x0400), (0x0461, 0x0481, 2, 0x0460),
      (0x048B, 0x04BF, 2, 0x048A), (0x04C2, 0x04CE, 2, 0x04C1), (0x04CF, 0x04CF, 1, 0x04C0),
      (0x04D1, 0x052F, 2, 0x04D0), (0x0561, 0x0586, 1, 0x0531), (0x10D0, 0x10FA, 1, 0x1C90),
      (0x10FD, 0x10FF, 1, 0x1CBD), (0x13F8, 0x13FD, 1, 0x13F0), (0x1C80, 0x1C80, 1, 0x0412),
      (0x1C81, 0x1C81, 1, 0x0414), (0x1C82, 0x1C82, 1, 0x041E), (0x1C83, 0x1C84, 1, 0x0421),
      (0x1C85, 0x1C85, 1, 0x0422), (0x1C86, 0x1C86, 1, 0x042A), (0x1C87, 0x1C87, 1, 0x0462),
      (0x1C88, 0x1C88, 1, 0xA64A), (0x1D79, 0x1D79, 1, 0xA77D), (0x1D7D, 0x1D7D, 1, 0x2C63),
      (0x1D8E, 0x1D8E, 1, 0xA7C6), (0x1E01, 0x1E95, 2, 0x1E00), (0x1E9B, 0x1E9B, 1, 0x1E60),
      (0x1EA1, 0x1EFF, 2, 0x1EA0), (0x1F00, 0x1F07, 1, 0x1F08), (0x1F10, 0x1F15, 1, 0x1F18),
      (0x1F20, 0x1F27, 1, 0x1F28), (0x1F30, 0x1F37, 1, 0x1F38), (0x1F40, 0x1F45, 1, 0x1F48),
      (0x1F51, 0x1F57, 2, 0x1F59), (0x1F60, 0x1F67, 1, 0x1F68), (0x1F70, 0x1F71, 1, 0x1FBA),
      (0x1F72, 0x1F75, 1, 0x1FC8), (0x1F76, 0x1F77, 1, 0x1FDA), (0x1F78, 0x1F79, 1, 0x1FF8),
      (0x1F7A, 0x1F7B, 1, 0x1FEA), (0x1F7C, 0x1F7D, 1, 0x1FFA), (0x1FB0, 0x1FB1, 1, 0x1FB8),
      (0x1FBE, 0x1FBE, 1, 0x0399), (0x1FD0, 0x1FD1, 1, 0x1FD8), (0x1FE0, 0x1FE1, 1, 0x1FE8),
      (0x1FE5, 0x1FE5, 1, 0x1FEC), (0x214E, 0x214E, 1, 0x2132), (0x2170, 0x217F, 1, 0x2160),
      (0x2184, 0x2184, 1, 0x2183), (0x24D0, 0x24E9, 1, 0x24B6), (0x2C30, 0x2C5F, 1, 0x2C00),
      (0x2C61, 0x2C61, 1, 0x2C60), (0x2C65, 0x2C65, 1, 0x023A), (0x2C66, 0x2C66, 1, 0x023E),
      (0x2C68, 0x2C6C, 2, 0x2C67), (0x2C73, 0x2C73, 1, 0x2C72), (0x2C76, 0x2C76, 1, 0x2C75),
      (0x2C81, 0x2CE3, 2, 0x2C80), (0x2CEC, 0x2CEE, 2, 0x2CEB), (0x2CF3, 0x2CF3, 1, 0x2CF2),
      (0x2D00, 0x2D25, 1, 0x10A0), (0x2D27, 0x2D27, 1, 0x10C7), (0x2D2D, 0x2D2D, 1, 0x10CD),
      (0xA641, 0xA66D, 2, 0xA640), (0xA681, 0xA69B, 2, 0xA680), (0xA723, 0xA72F, 2, 0xA722),
      (0xA733, 0xA76F, 2, 0xA732), (0xA77A, 0xA77C, 2, 0xA779), (0xA77F, 0xA787, 2, 0xA77E),
      (0xA78C, 0xA78C, 1, 0xA78B), (0xA791, 0xA793, 2, 0xA790), (0xA794, 0xA794, 1, 0xA7C4),
      (0xA797, 0xA7A9, 2, 0xA796), (0xA7B5, 0xA7C3, 2, 0xA7B4), (0xA7C8, 0xA7CA, 2, 0xA7C7),
      (0xA7D1, 0xA7D1, 1, 0xA7D0), (0xA7D7, 0xA7D9, 2, 0xA7D6), (0xA7F6, 0xA7F6, 1, 0xA7F5),
      (0xAB53, 0xAB53, 1, 0xA7B3), (0xAB70, 0xABBF, 1, 0x13A0), (0xFF41, 0xFF5A, 1, 0xFF21),
      (0x10428, 0x1044F, 1, 0x10400), (0x104D8, 0x104FB, 1, 0x104B0), (0x10597, 0x105A1, 1, 0x10570),
      (0x105A3, 0x105B1, 1, 0x1057C), (0x105B3, 0x105B9, 1, 0x1058C), (0x105BB, 0x105BC, 1, 0x10594),
      (0x10CC0, 0x10CF2, 1, 0x10C80), (0x118C0, 0x118DF, 1, 0x118A0), (0x16E60, 0x16E7F, 1, 0x16E40),
      (0x1E922, 0x1E943, 1, 0x1E900)]"

definition upper_special :: "(nat \<times> nat list) list" where
  "upper_special =
     [(0x00DF, [0x0053, 0x0053]), (0x0149, [0x02BC, 0x004E]), (0x01F0, [0x004A, 0x030C]),
      (0x0390, [0x0399, 0x0308, 0x0301]), (0x03B0, [0x03A5, 0x0308, 0x0301]), (0x0587, [0x0535, 0x0552]),
      (0x1E96, [0x0048, 0x0331]), (0x1E97, [0x0054, 0x0308]), (0x1E98, [0x0057, 0x030A]),
      (0x1E99, [0x0059, 0x030A]), (0x1E9A, [0x0041, 0x02BE]), (0x1F50, [0x03A5, 0x0313]),
      (0x1F52, [0x03A5, 0x0313, 0x0300]), (0x1F54, [0x03A5, 0x0313, 0x0301]), (0x1F56, [0x03A5, 0x0313, 0x0342]),
      (0x1F80, [0x1F08, 0x0399]), (0x1F81, [0x1F09, 0x0399]), (0x1F82, [0x1F0A, 0x0399]),
      (0x1F83, [0x1F0B, 0x0399]), (0x1F84, [0x1F0C, 0x0399]), (0x1F85, [0x1F0D, 0x0399]),
      (0x1F86, [0x1F0E, 0x0399]), (0x1F87, [0x1F0F, 0x0399]), (0x1F88, [0x1F08, 0x0399]),
      (0x1F89, [0x1F09, 0x0399]), (0x1F8A, [0x1F0A, 0x0399]), (0x1F8B, [0x1F0B, 0x0399]),
      (0x1F8C, [0x1F0C, 0x0399]), (0x1F8D, [0x1F0D, 0x0399]), (0x1F8E, [0x1F0E, 0x0399]),
      (0x1F8F, [0x1F0F, 0x0399]), (0x1F90, [0x1F28, 0x0399]), (0x1F91, [0x1F29, 0x0399]),
      (0x1F92, [0x1F2A, 0x0399]), (0x1F93, [0x1F2B, 0x0399]), (0x1F94, [0x1F2C, 0x0399]),
      (0x1F95, [0x1F2D, 0x0399]), (0x1F96, [0x1F2E, 0x0399]), (0x1F97, [0x1F2F, 0x0399]),
      (0x1F98, [0x1F28, 0x0399]), (0x1F99, [0x1F29, 0x0399]), (0x1F9A, [0x1F2A, 0x0399]),
      (0x1F9B, [0x1F2B, 0x0399]), (0x1F9C, [0x1F2C, 0x0399]), (0x1F9D, [0x1F2D, 0x0399]),
      (0x1F9E, [0x1F2E, 0x0399]), (0x1F9F, [0x1F2F, 0x0399]), (0x1FA0, [0x1F68, 0x0399]),
      (0x1FA1, [0x1F69, 0x0399]), (0x1FA2, [0x1F6A, 0x0399]), (0x1FA3, [0x1F6B, 0x0399]),
      (0x1FA4, [0x1F6C, 0x0399]), (0x1FA5, [0x1F6D, 0x0399]), (0x1FA6, [0x1F6E, 0x0399]),
      (0x1FA7, [0x1F6F, 0x0399]), (0x1FA8, [0x1F68, 0x0399]), (0x1FA9, [0x1F69, 0x0399]),
      (0x1FAA, [0x1F6A, 0x0399]), (0x1FAB, [0x1F6B, 0x0399]), (0x1FAC, [0x1F6C, 0x0399]),
      (0x1FAD, [0x1F6D, 0x0399]), (0x1FAE, [0x1F6E, 0x0399]), (0x1FAF, [0x1F6F, 0x0399]),
      (0x1FB2, [0x1FBA, 0x0399]), (0x1FB3, [0x0391, 0x0399]), (0x1FB4, [0x0386, 0x0399]),
      (0x1FB6, [0x0391, 0x0342]), (0x1FB7, [0x0391, 0x0342, 0x0399]), (0x1FBC, [0x0391, 0x0399]),
      (0x1FC2, [0x1FCA, 0x0399]), (0x1FC3, [0x0397, 0x0399]), (0x1FC4, [0x0389, 0x0399]),
      (0x1FC6, [0x0397, 0x0342]), (0x1FC7, [0x0397, 0x0342, 0x0399]), (0x1FCC, [0x0397, 0x0399]),
      (0x1FD2, [0x0399, 0x0308, 0x0300]), (0x1FD3, [0x0399, 0x0308, 0x0301]), (0x1FD6, [0x0399, 0x0342]),
      (0x1FD7, [0x0399, 0x0308, 0x0342]), (0x1FE2, [0x03A5, 0x0308, 0x0300]), (0x1FE3, [0x03A5, 0x0308, 0x0301]),
      (0x1FE4, [0x03A1, 0x0313]), (0x1FE6, [0x03A5, 0x0342]), (0x1FE7, [0x03A5, 0x0308, 0x0342]),
      (0x1FF2, [0x1FFA, 0x0399]), (0x1FF3, [0x03A9, 0x0399]), (0x1FF4, [0x038F, 0x0399]),
      (0x1FF6, [0x03A9, 0x0342]), (0x1FF7, [0x03A9, 0x0342, 0x0399]), (0x1FFC, [0x03A9, 0x0399]),
      (0xFB00, [0x0046, 0x0046]), (0xFB01, [0x0046, 0x0049]), (0xFB02, [0x0046, 0x004C]),
      (0xFB03, [0x0046, 0x0046, 0x0049]), (0xFB04, [0x0046, 0x0046, 0x004C]), (0xFB05, [0x0053, 0x0054]),
      (0xFB06, [0x0053, 0x0054]), (0xFB13, [0x0544, 0x0546]), (0xFB14, [0x0544, 0x0535]),
      (0xFB15, [0x0544, 0x053B]), (0xFB16, [0x054E, 0x0546]), (0xFB17, [0x0544, 0x053D])]"

definition lower_ranges :: "(nat \<times> nat \<times> nat \<times> nat) list" where
  "lower_ranges =
     [(0x00C0, 0x00D6, 1, 0x00E0), (0x00D8, 0x00DE, 1, 0x00F8), (0x0100, 0x012E, 2, 0x0101),
      (0x0132, 0x0136, 2, 0x0133), (0x0139, 0x0147, 2, 0x013A), (0x014A, 0x0176, 2, 0x014B),
      (0x0178, 0x0178, 1, 0x00FF), (0x0179, 0x017D, 2, 0x017A), (0x0181, 0x0181, 1, 0x0253),
      (0x0182, 0x0184, 2, 0x0183), (0x0186, 0x0186, 1, 0x0254), (0x0187, 0x0187, 1, 0x0188),
      (0x0189, 0x018A, 1, 0x0256), (0x018B, 0x018B, 1, 0x018C), (0x018E, 0x018E, 1, 0x01DD),
      (0x018F, 0x018F, 1, 0x0259), (0x0190, 0x0190, 1, 0x025B), (0x0191, 0x0191, 1, 0x0192),
      (0x0193, 0x0193, 1, 0x0260), (0x0194, 0x0194, 1, 0x0263), (0x0196, 0x0196, 1, 0x0269),
      (0x0197, 0x0197, 1, 0x0268), (0x0198, 0x0198, 1, 0x0199), (0x019C, 0x019C, 1, 0x026F),
      (0x019D, 0x019D, 1, 0x0272), (0x019F, 0x019F, 1, 0x0275), (0x01A0, 0x01A4, 2, 0x01A1),
      (0x01A6, 0x01A6, 1, 0x0280), (0x01A7, 0x01A7, 1, 0x01A8), (0x01A9, 0x01A9, 1, 0x0283),
      (0x01AC, 0x01AC, 1, 0x01AD), (0x01AE, 0x01AE, 1, 0x0288), (0x01AF, 0x01AF, 1, 0x01B0),
      (0x01B1, 0x01B2, 1, 0x028A), (0x01B3, 0x01B5, 2, 0x01B4), (0x01B7, 0x01B7, 1, 0x0292),
      (0x01B8, 0x01B8, 1, 0x01B9), (0x01BC, 0x01BC, 1, 0x01BD), (0x01C4, 0x01C4, 1, 0x01C6),
      (0x01C5, 0x01C5, 1, 0x01C6), (0x01C7, 0x01C7, 1, 0x01C9), (0x01C8, 0x01C8, 1, 0x01C9),
      (0x01CA, 0x01CA, 1, 0x01CC), (0x01CB, 0x01DB, 2, 0x01CC), (0x01DE, 0x01EE, 2, 0x01DF),
      (0x01F1, 0x01F1, 1, 0x01F3), (0x01F2, 0x01F4, 2, 0x01F3), (0x01F6, 0x01F6, 1, 0x0195),
      (0x01F7, 0x01F7, 1, 0x01BF), (0x01F8, 0x021E, 2, 0x01F9), (0x0220, 0x0220, 1, 0x019E),
      (0x0222, 0x0232, 2, 0x0223), (0x023A, 0x023A, 1, 0x2C65), (0x023B, 0x023B, 1, 0x023C),
      (0x023D, 0x023D, 1, 0x019A), (0x023E, 0x023E, 1, 0x2C66), (0x0241, 0x0241, 1, 0x0242),
      (0x0243, 0x0243, 1, 0x0180), (0x0244, 0x0244, 1, 0x0289), (0x0245, 0x0245, 1, 0x028C),
      (0x0246, 0x024E, 2, 0x0247), (0x0370, 0x0372, 2, 0x0371), (0x0376, 0x0376, 1, 0x0377),
      (0x037F, 0x037F, 1, 0x03F3), (0x0386, 0x0386, 1, 0x03AC), (0x0388, 0x038A, 1, 0x03AD),
      (0x038C, 0x038C, 1, 0x03CC), (0x038E, 0x038F, 1, 0x03CD), (0x0391, 0x03A1, 1, 0x03B1),
      (0x03A3, 0x03AB, 1, 0x03C3), (0x03CF, 0x03CF, 1, 0x03D7), (0x03D8, 0x03EE, 2, 0x03D9),
      (0x03F4, 0x03F4, 1, 0x03B8), (0x03F7, 0x03F7, 1, 0x03F8), (0x03F9, 0x03F9, 1, 0x03F2),
      (0x03FA, 0x03FA, 1, 0x03FB), (0x03FD, 0x03FF, 1, 0x037B), (0x0400, 0x040F, 1, 0x0450),
      (0x0410, 0x042F, 1, 0x0430), (0x0460, 0x0480, 2, 0x0461), (0x048A, 0x04BE, 2, 0x048B),
      (0x04C0, 0x04C0, 1, 0x04CF), (0x04C1, 0x04CD, 2, 0x04C2), (0x04D0, 0x052E, 2, 0x04D1),
      (0x0531, 0x0556, 1, 0x0561), (0x10A0, 0x10C5, 1, 0x2D00), (0x10C7, 0x10C7, 1, 0x2D27),
      (0x10CD, 0x10CD, 1, 0x2D2D), (0x13A0, 0x13EF, 1, 0xAB70), (0x13F0, 0x13F5, 1, 0x13F8),
      (0x1C90, 0x1CBA, 1, 0x10D0), (0x1CBD, 0x1CBF, 1, 0x10FD), (0x1E00, 0x1E94, 2, 0x1E01),
      (0x1E9E, 0x1E9E, 1, 0x00DF), (0x1EA0, 0x1EFE, 2, 0x1EA1), (0x1F08, 0x1F0F, 1, 0x1F00),
      (0x1F18, 0x1F1D, 1, 0x1F10), (0x1F28, 0x1F2F, 1, 0x1F20), (0x1F38, 0x1F3F, 1, 0x1F30),
      (0x1F48, 0x1F4D, 1, 0x1F40), (0x1F59, 0x1F5F, 2, 0x1F51), (0x1F68, 0x1F6F, 1, 0x1F60),
      (0x1F88, 0x1F8F, 1, 0x1F80), (0x1F98, 0x1F9F, 1, 0x1F90), (0x1FA8, 0x1FAF, 1, 0x1FA0),
      (0x1FB8, 0x1FB9, 1, 0x1FB0), (0x1FBA, 0x1FBB, 1, 0x1F70), (0x1FBC, 0x1FBC, 1, 0x1FB3),
      (0x1FC8, 0x1FCB, 1, 0x1F72), (0x1FCC, 0x1FCC, 1, 0x1FC3), (0x1FD8, 0x1FD9, 1, 0x1FD0),
      (0x1FDA, 0x1FDB, 1, 0x1F76), (0x1FE8, 0x1FE9, 1, 0x1FE0), (0x1FEA, 0x1FEB, 1, 0x1F7A),
      (0x1FEC, 0x1FEC, 1, 0x1FE5), (0x1FF8, 0x1FF9, 1, 0x1F78), (0x1FFA, 0x1FFB, 1, 0x1F7C),
      (0x1FFC, 0x1FFC, 1, 0x1FF3), (0x2126, 0x2126, 1, 0x03C9), (0x212A, 0x212A, 1, 0x006B),
      (0x212B, 0x212B, 1, 0x00E5), (0x2132, 0x2132, 1, 0x214E), (0x2160, 0x216F, 1, 0x2170),
      (0x2183, 0x2183, 1, 0x2184), (0x24B6, 0x24CF, 1, 0x24D0), (0x2C00, 0x2C2F, 1, 0x2C30),
      (0x2C60, 0x2C60, 1, 0x2C61), (0x2C62, 0x2C62, 1, 0x026B), (0x2C63, 0x2C63, 1, 0x1D7D),
      (0x2C64, 0x2C64, 1, 0x027D), (0x2C67, 0x2C6B, 2, 0x2C68), (0x2C6D, 0x2C6D, 1, 0x0251),
      (0x2C6E, 0x2C6E, 1, 0x0271), (0x2C6F, 0x2C6F, 1, 0x0250), (0x2C70, 0x2C70, 1, 0x0252),
      (0x2C72, 0x2C72, 1, 0x2C73), (0x2C75, 0x2C75, 1, 0x2C76), (0x2C7E, 0x2C7F, 1, 0x023F),
      (0x2C80, 0x2CE2, 2, 0x2C81), (0x2CEB, 0x2CED, 2, 0x2CEC), (0x2CF2, 0x2CF2, 1, 0x2CF3),
      (0xA640, 0xA66C, 2, 0xA641), (0xA680, 0xA69A, 2, 0xA681), (0xA722, 0xA72E, 2, 0xA723),
      (0xA732, 0xA76E, 2, 0xA733), (0xA779, 0xA77B, 2, 0xA77A), (0xA77D, 0xA77D, 1, 0x1D79),
      (0xA77E, 0xA786, 2, 0xA77F), (0xA78B, 0xA78B, 1, 0xA78C), (0xA78D, 0xA78D, 1, 0x0265),
      (0xA790, 0xA792, 2, 0xA791), (0xA796, 0xA7A8, 2, 0xA797), (0xA7AA, 0xA7AA, 1, 0x0266),
      (0xA7AB, 0xA7AB, 1, 0x025C), (0xA7AC, 0xA7AC, 1, 0x0261), (0xA7AD, 0xA7AD, 1, 0x026C),
      (0xA7AE, 0xA7AE, 1, 0x026A), (0xA7B0, 0xA7B0, 1, 0x029E), (0xA7B1, 0xA7B1, 1, 0x0287),
      (0xA7B2, 0xA7B2, 1, 0x029D), (0xA7B3, 0xA7B3, 1, 0xAB53), (0xA7B4, 0xA7C2, 2, 0xA7B5),
      (0xA7C4, 0xA7C4, 1, 0xA794), (0xA7C5, 0xA7C5, 1, 0x0282), (0xA7C6, 0xA7C6, 1, 0x1D8E),
      (0xA7C7, 0xA7C9, 2, 0xA7C8), (0xA7D0, 0xA7D0, 1, 0xA7D1), (0xA7D6, 0xA7D8, 2, 0xA7D7),
      (0xA7F5, 0xA7F5, 1, 0xA7F6), (0xFF21, 0xFF3A, 1, 0xFF41), (0x10400, 0x10427, 1, 0x10428),
      (0x104B0, 0x104D3, 1, 0x104D8), (0x10570, 0x1057A, 1, 0x10597), (0x1057C, 0x1058A, 1, 0x105A3),
      (0x1058C, 0x10592, 1, 0x105B3), (0x10594, 0x10595, 1, 0x105BB), (0x10C80, 0x10CB2, 1, 0x10CC0),
      (0x118A0, 0x118BF, 1, 0x118C0), (0x16E40, 0x16E5F, 1, 0x16E60), (0x1E900, 0x1E921, 1, 0x1E922)]"

definition lower_special :: "(nat \<times> nat list) list" where
  "lower_special =
     [(0x0130, [0x0069, 0x0307])]"

definition map_range :: "(nat \<times> nat \<times> nat \<times> nat) list \<Rightarrow> nat \<Rightarrow> nat" where
  "map_range rs n =
     (case find (\<lambda>(lo, hi, step, target). lo \<le> n \<and> n \<le> hi \<and> (n - lo) mod step = 0) rs of
        None \<Rightarrow> n
      | Some (lo, hi, step, target) \<Rightarrow> target + (n - lo))"

definition upper_code_point :: "nat \<Rightarrow> nat list" where
  "upper_code_point n =
     (if n < 128 then [if 97 \<le> n \<and> n \<le> 122 then n - 32 else n]
      else case map_of upper_special n of
             Some ns \<Rightarrow> ns
           | None \<Rightarrow> [map_range upper_ranges n])"

definition lower_code_point :: "nat \<Rightarrow> nat list" where
  "lower_code_point n =
     (if n < 128 then [if 65 \<le> n \<and> n \<le> 90 then n + 32 else n]
      else case map_of lower_special n of
             Some ns \<Rightarrow> ns
           | None \<Rightarrow> [map_range lower_ranges n])"

text \<open>
  \<open>String.prototype.toUpperCase\<close> and \<open>toLowerCase\<close>: every code point is replaced by its
  mapping. A unit that is no code point stays as it is. The one rule of \<open>toLowerCase\<close>
  that looks at the neighbours of a code point, the final form of a capital sigma, is
  left out: such a sigma becomes the ordinary small sigma here.
\<close>

definition upper_unit :: "string \<Rightarrow> string" where
  "upper_unit u =
     (case decode_unit u of None \<Rightarrow> u | Some n \<Rightarrow> concat (map encode_unit (upper_code_point n)))"

definition lower_unit :: "string \<Rightarrow> string" where
  "lower_unit u =
     (case decode_unit u of None \<Rightarrow> u | Some n \<Rightarrow> concat (map encode_unit (lower_code_point n)))"

definition toUpperCase :: "string \<Rightarrow> string" where
  "toUpperCase s = concat (map upper_unit (utf8_units s))"

definition toLowerCase :: "string \<Rightarrow> string" where
  "toLowerCase s = concat (map lower_unit (utf8_units s))"

text \<open>The two mappings on an ASCII character.\<close>

definition is_lower :: "char \<Rightarrow> bool" where
  "is_lower c = (97 \<le> (of_char c :: nat) \<and> (of_char c :: nat) \<le> 122)"

definition is_upper :: "char \<Rightarrow> bool" where
  "is_upper c = (65 \<le> (of_char c :: nat) \<and> (of_char c :: nat) \<le> 90)"

definition upper_char :: "char \<Rightarrow> char" where
  "upper_char c = (if is_lower c then char_of ((of_char c :: nat) - 32) else c)"

definition lower_char :: "char \<Rightarrow> char" where
  "lower_char c = (if is_upper c then char_of ((of_char c :: nat) + 32) else c)"

definition is_ascii :: "char \<Rightarrow> bool" where
  "is_ascii c = ((of_char c :: nat) < 128)"

text \<open>
  \<open>s.split(",")\<close>: the pieces between the commas, in order. An input without a comma is
  one piece, so the empty string splits into one empty piece, as in JavaScript.
\<close>

fun split_comma :: "string \<Rightarrow> string list" where
  "split_comma [] = [[]]"
| "split_comma (c # cs) =
     (if c = CHR '','' then [] # split_comma cs
      else (case split_comma cs of
              [] \<Rightarrow> [[c]]
            | p # ps \<Rightarrow> (c # p) # ps))"

section \<open>The batch endpoint: parsing (\<open>src/app/api/batch/route.ts\<close>, lines 10 to 15)\<close>

text \<open>
  \<open>searchParams.get(k) || d\<close>: the default \<open>d\<close> stands in for a parameter that is missing
  (\<open>null\<close>) or empty, the two falsy results of \<open>get\<close>.
\<close>

definition or_default :: "string option \<Rightarrow> string \<Rightarrow> string" where
  "or_default p d = (case p of None \<Rightarrow> d | Some s \<Rightarrow> if s = [] then d else s)"

text \<open>\<open>searchParams.get("tickers") || ""\<close>.\<close>

definition tickersParam :: "string option \<Rightarrow> string" where
  "tickersParam q = or_default q []"

text \<open>
  \<open>tickersParam.split(",").map(t => t.trim().toUpperCase()).filter(Boolean)\<close>: the empty
  string is the only string that \<open>Boolean\<close> maps to \<open>false\<close>.
\<close>

definition parse_tickers :: "string \<Rightarrow> string list" where
  "parse_tickers s = filter (\<lambda>t. t \<noteq> []) (map (\<lambda>t. toUpperCase (trim t)) (split_comma s))"

section \<open>JavaScript values\<close>

text \<open>
  The provider's payload is typed \<open>any\<close> in the source, so the model keeps it dynamic.
  A number is carried through and never computed with; it is a rational, \<open>NaN\<close> or an
  infinity. An object is the list of its data properties. \<open>Builtin\<close> stands for an object
  of the runtime itself (a function or prototype), named by its global path.
\<close>

datatype jsnum = Finite rat | NaN | PosInfinity | NegInfinity

datatype jsval =
    Undefined
  | Null
  | Bool bool
  | Num jsnum
  | Str string
  | Obj "(string \<times> jsval) list"
  | Builtin string

text \<open>\<open>ToBoolean\<close>: the falsy values are \<open>undefined\<close>, \<open>null\<close>, \<open>false\<close>, \<open>0\<close>, \<open>NaN\<close> and \<open>""\<close>.\<close>

fun truthy :: "jsval \<Rightarrow> bool" where
  "truthy Undefined = False"
| "truthy Null = False"
| "truthy (Bool b) = b"
| "truthy (Num n) = (n \<noteq> Finite 0 \<and> n \<noteq> NaN)"
| "truthy (Str s) = (s \<noteq> [])"
| "truthy (Obj fs) = True"
| "truthy (Builtin n) = True"

text \<open>\<open>a || b\<close> is \<open>a\<close> when \<open>a\<close> is truthy and \<open>b\<close> otherwise.\<close>

definition js_or :: "jsval \<Rightarrow> jsval \<Rightarrow> jsval" where
  "js_or a b = (if truthy a then a else b)"

text \<open>
  The properties that every object inherits from \<open>Object.prototype\<close>. A property read
  on an object literal that misses its own properties finds these.
\<close>

definition Object_prototype_keys :: "string list" where
  "Object_prototype_keys =
     [''constructor'', ''__defineGetter__'', ''__defineSetter__'', ''hasOwnProperty'',
      ''__lookupGetter__'', ''__lookupSetter__'', ''isPrototypeOf'', ''propertyIsEnumerable'',
      ''toString'', ''valueOf'', ''__proto__'', ''toLocaleString'']"

definition inherited :: "string \<Rightarrow> jsval" where
  "inherited k =
     (if k = ''constructor'' then Builtin ''Object''
      else if k = ''__proto__'' then Builtin ''Object.prototype''
      else if k \<in> set Object_prototype_keys then Builtin (''Object.prototype.'' @ k)
      else Undefined)"

text \<open>
  The property read \<open>v[k]\<close> on a value that is neither \<open>null\<close> nor \<open>undefined\<close> (on
  those the read throws, which the caller models): own properties first, then the
  prototype. The wrapper prototypes of the primitives add no property that the handlers
  read, so a primitive answers with the inherited properties only.
\<close>

fun get_prop :: "jsval \<Rightarrow> string \<Rightarrow> jsval" where
  "get_prop (Obj fs) k = (case map_of fs k of Some v \<Rightarrow> v | None \<Rightarrow> inherited k)"
| "get_prop v k = inherited k"

section \<open>The batch endpoint: one lookup (lines 22 to 31)\<close>

text \<open>
  A rejection reason is whatever the provider's library throws. The handler looks at it
  in two ways only, \<open>r.reason?.message\<close> and \<open>String(r.reason)\<close>, so a reason is these
  two observations: \<open>message\<close> is \<^term>\<open>Undefined\<close> when the reason is nullish or has
  no such property. A reason of this type has a string form; a reason on which \<open>String\<close>
  throws comes in the section on reasons without a string form.
\<close>

record reason =
  message :: jsval
  string_form :: string

text \<open>How the promise of \<open>yahoo.quote(ticker)\<close> settles.\<close>

datatype upstream = Fulfils jsval | Rejects reason

text \<open>
  The \<open>TypeError\<close> that Node (the runtime the route declares) throws for a property
  read on \<open>undefined\<close> or \<open>null\<close>.
\<close>

definition cannot_read :: "string \<Rightarrow> string \<Rightarrow> reason" where
  "cannot_read v k =
     (let m = ''Cannot read properties of '' @ v @ '' (reading '' @ [CHR 0x27] @ k @ [CHR 0x27] @ '')''
      in \<lparr>message = Str m, string_form = ''TypeError: '' @ m\<rparr>)"

text \<open>The object that the async arrow returns.\<close>

record quote_value =
  ticker :: string
  name :: jsval
  price :: jsval
  changePercent :: jsval
  currency :: jsval

text \<open>An element of the array that \<open>Promise.allSettled\<close> resolves to.\<close>

datatype settled = Fulfilled quote_value | Rejected reason

text \<open>
  The async arrow \<open>async (ticker) => { const q = await yahoo.quote(ticker); return {...} }\<close>,
  from the settlement of the provider's promise to the settlement of its own. A rejection
  of the provider is rethrown by \<open>await\<close>. The first property read, \<open>q.shortName\<close>,
  throws when \<open>q\<close> is \<open>undefined\<close> or \<open>null\<close>; no other payload makes the arrow throw.
\<close>

definition quote_task :: "string \<Rightarrow> upstream \<Rightarrow> settled" where
  "quote_task t u =
     (case u of
        Rejects e \<Rightarrow> Rejected e
      | Fulfils q \<Rightarrow>
          if q = Undefined then Rejected (cannot_read ''undefined'' ''shortName'')
          else if q = Null then Rejected (cannot_read ''null'' ''shortName'')
          else Fulfilled
            \<lparr>ticker = t,
             name = js_or (js_or (get_prop q ''shortName'') (get_prop q ''longName'')) (Str t),
             price = get_prop q ''regularMarketPrice'',
             changePercent = get_prop q ''regularMarketChangePercent'',
             currency = get_prop q ''currency''\<rparr>)"

section \<open>The batch endpoint: fan-out and fan-in (lines 21 to 32)\<close>

text \<open>
  \<open>tickers.map(async ...)\<close> runs the arrow once per ticker, in order, and each run goes
  as far as its \<open>await\<close>: it calls \<open>yahoo.quote(ticker)\<close> and suspends
  (\<open>start_lookup\<close>). JavaScript runs this to the end before it delivers any settlement.
  \<open>Promise.allSettled\<close> keeps an array with one slot per promise and a count of the
  promises that have not settled; the \<open>await\<close> of the handler resumes when the count
  reaches zero.
\<close>

record fanout =
  calls :: "string list"
  slots :: "settled option list"
  remaining :: nat

definition start_lookup :: "fanout \<Rightarrow> string \<Rightarrow> fanout" where
  "start_lookup st t =
     st\<lparr>calls := calls st @ [t], slots := slots st @ [None], remaining := remaining st + 1\<rparr>"

definition fan_out :: "string list \<Rightarrow> fanout" where
  "fan_out tickers = foldl start_lookup \<lparr>calls = [], slots = [], remaining = 0\<rparr> tickers"

text \<open>
  The provider is a parameter: \<open>yahoo i t\<close> is how the promise of call number \<open>i\<close>, made
  for symbol \<open>t\<close>, settles. The event \<open>settle yahoo st i\<close> is that settlement reaching
  the handler: the arrow of call \<open>i\<close> finishes and \<open>allSettled\<close> stores its outcome in
  slot \<open>i\<close>. A promise settles once, and there is no call beyond the last ticker, so
  an event for a filled slot or for no call changes nothing.
\<close>

definition settle :: "(nat \<Rightarrow> string \<Rightarrow> upstream) \<Rightarrow> fanout \<Rightarrow> nat \<Rightarrow> fanout" where
  "settle yahoo st i =
     (if i < length (slots st) \<and> i < length (calls st) \<and> slots st ! i = None
      then st\<lparr>slots := (slots st)[i := Some (quote_task (calls st ! i) (yahoo i (calls st ! i)))],
              remaining := remaining st - 1\<rparr>
      else st)"

text \<open>
  \<open>fan_in yahoo tickers sched\<close> is the state after the settlements \<open>sched\<close>, a list of
  call numbers in the order in which the settlements arrive; a call that is not in
  \<open>sched\<close> has not settled. The next definition is
  what \<open>await Promise.allSettled(...)\<close> yields in a state: the array once nothing
  remains, and nothing (\<^term>\<open>None :: settled list option\<close>, the handler stays
  suspended) before.
\<close>

definition fan_in :: "(nat \<Rightarrow> string \<Rightarrow> upstream) \<Rightarrow> string list \<Rightarrow> nat list \<Rightarrow> fanout" where
  "fan_in yahoo tickers sched = foldl (settle yahoo) (fan_out tickers) sched"

definition await_allSettled :: "fanout \<Rightarrow> settled list option" where
  "await_allSettled st = (if remaining st = 0 then those (slots st) else None)"

section \<open>The batch endpoint: the response (lines 17 to 19 and 34 to 40)\<close>

datatype quote_row = Success quote_value | Failure string jsval

fun ok :: "quote_row \<Rightarrow> bool" where
  "ok (Success v) = True"
| "ok (Failure t e) = False"

fun row_ticker :: "quote_row \<Rightarrow> string" where
  "row_ticker (Success v) = ticker v"
| "row_ticker (Failure t e) = t"

text \<open>
  The callback of \<open>results.map\<close>: \<open>{ ok: true, ...r.value }\<close> for a fulfilled element and
  \<open>{ ok: false, ticker, error: r.reason?.message || String(r.reason) }\<close> for a rejected
  one.
\<close>

definition to_row :: "string \<Rightarrow> settled \<Rightarrow> quote_row" where
  "to_row t r =
     (case r of
        Fulfilled v \<Rightarrow> Success v
      | Rejected e \<Rightarrow> Failure t (js_or (message e) (Str (string_form e))))"

text \<open>
  The JSON bodies of the two routes, before serialisation: \<open>{ error }\<close>, \<open>{ data }\<close>,
  \<open>{ error, details }\<close> and \<open>{ ticker, range, data }\<close> with rows \<open>{ date, close }\<close>.
\<close>

datatype body =
    ErrorBody string
  | DataBody "quote_row list"
  | FailedBody string jsval
  | HistoryBody string string "(string \<times> jsval) list"

record response =
  status :: nat
  body :: body

text \<open>
  A run of a handler: the provider calls it made, and its response, if it has one
  (\<^term>\<open>None :: response option\<close> while it is suspended).
\<close>

record batch_run =
  upstream_calls :: "string list"
  responded :: "response option"

text \<open>The handler \<open>GET\<close>, for a provider and a schedule of its settlements.\<close>

definition GET_batch ::
  "(nat \<Rightarrow> string \<Rightarrow> upstream) \<Rightarrow> nat list \<Rightarrow> string option \<Rightarrow> batch_run" where
  "GET_batch yahoo sched q =
     (let tickers = parse_tickers (tickersParam q) in
      if tickers = []
      then \<lparr>upstream_calls = [],
            responded = Some \<lparr>status = 400, body = ErrorBody ''Missing tickers''\<rparr>\<rparr>
      else
        let st = fan_in yahoo tickers sched in
        \<lparr>upstream_calls = calls st,
         responded =
           (case await_allSettled st of
              None \<Rightarrow> None
            | Some results \<Rightarrow>
                Some \<lparr>status = 200,
                      body = DataBody (map (\<lambda>i. to_row (tickers ! i) (results ! i))
                                            [0 ..< length results])\<rparr>)\<rparr>)"

section \<open>The batch endpoint: a reason without a string form (lines 34 to 40)\<close>

text \<open>
  The run above takes the string form of a reason as given. That is right for every
  reason that \<open>String\<close> converts, an \<open>Error\<close> above all. On an object without a usable
  \<open>toString\<close>, such as \<open>Object.create(null)\<close>, \<open>String(r.reason)\<close> throws a \<open>TypeError\<close>,
  and lines 34 to 40 stand in no \<open>try\<close>: the promise of the handler is then rejected.
  The run below is the same handler with the two kinds of reason told apart;
  \<open>Unconvertible m\<close> is a reason on which \<open>String\<close> throws and \<open>?.message\<close> reads \<open>m\<close>.

  \<open>Response.json\<close> returns on every row of the model: \<open>JSON.stringify\<close> leaves out
  \<open>undefined\<close> and functions and writes \<open>NaN\<close> as \<open>null\<close>. The values on which it throws,
  a \<open>BigInt\<close> and a cyclic object, are no values of \<^typ>\<open>jsval\<close>.
\<close>

datatype thrown = Convertible reason | Unconvertible jsval

datatype raw_upstream = Raw_Fulfils jsval | Raw_Rejects thrown

datatype raw_settled = Raw_Fulfilled quote_value | Raw_Rejected thrown

text \<open>The async arrow: as \<open>quote_task\<close>, a reason passing through as it is.\<close>

definition raw_quote_task :: "string \<Rightarrow> raw_upstream \<Rightarrow> raw_settled" where
  "raw_quote_task t u =
     (case u of
        Raw_Rejects x \<Rightarrow> Raw_Rejected x
      | Raw_Fulfils q \<Rightarrow>
          (case quote_task t (Fulfils q) of
             Fulfilled v \<Rightarrow> Raw_Fulfilled v
           | Rejected e \<Rightarrow> Raw_Rejected (Convertible e)))"

text \<open>The \<open>TypeError\<close> that \<open>String\<close> throws in Node.\<close>

definition cannot_convert :: reason where
  "cannot_convert =
     \<lparr>message = Str ''Cannot convert object to primitive value'',
      string_form = ''TypeError: Cannot convert object to primitive value''\<rparr>"

text \<open>
  The callback of \<open>results.map\<close>, which returns a row or throws
  (\<^term>\<open>Inl :: reason \<Rightarrow> reason + quote_row\<close>). \<open>String(r.reason)\<close> is evaluated only when the
  message is falsy.
\<close>

definition raw_to_row :: "string \<Rightarrow> raw_settled \<Rightarrow> reason + quote_row" where
  "raw_to_row t r =
     (case r of
        Raw_Fulfilled v \<Rightarrow> Inr (Success v)
      | Raw_Rejected (Convertible e) \<Rightarrow> Inr (Failure t (js_or (message e) (Str (string_form e))))
      | Raw_Rejected (Unconvertible m) \<Rightarrow> if truthy m then Inr (Failure t m) else Inl cannot_convert)"

text \<open>\<open>Array.prototype.map\<close> with a callback that may throw: the first throw ends it.\<close>

fun collect :: "('e + 'a) list \<Rightarrow> 'e + 'a list" where
  "collect [] = Inr []"
| "collect (Inl e # xs) = Inl e"
| "collect (Inr x # xs) = (case collect xs of Inl e \<Rightarrow> Inl e | Inr ys \<Rightarrow> Inr (x # ys))"

record raw_fanout =
  raw_calls :: "string list"
  raw_slots :: "raw_settled option list"
  raw_remaining :: nat

definition raw_start_lookup :: "raw_fanout \<Rightarrow> string \<Rightarrow> raw_fanout" where
  "raw_start_lookup st t =
     st\<lparr>raw_calls := raw_calls st @ [t], raw_slots := raw_slots st @ [None],
        raw_remaining := raw_remaining st + 1\<rparr>"

definition raw_fan_out :: "string list \<Rightarrow> raw_fanout" where
  "raw_fan_out tickers =
     foldl raw_start_lookup \<lparr>raw_calls = [], raw_slots = [], raw_remaining = 0\<rparr> tickers"

definition raw_settle :: "(nat \<Rightarrow> string \<Rightarrow> raw_upstream) \<Rightarrow> raw_fanout \<Rightarrow> nat \<Rightarrow> raw_fanout" where
  "raw_settle yahoo st i =
     (if i < length (raw_slots st) \<and> i < length (raw_calls st) \<and> raw_slots st ! i = None
      then st\<lparr>raw_slots :=
                (raw_slots st)[i := Some (raw_quote_task (raw_calls st ! i) (yahoo i (raw_calls st ! i)))],
              raw_remaining := raw_remaining st - 1\<rparr>
      else st)"

definition raw_fan_in ::
  "(nat \<Rightarrow> string \<Rightarrow> raw_upstream) \<Rightarrow> string list \<Rightarrow> nat list \<Rightarrow> raw_fanout" where
  "raw_fan_in yahoo tickers sched = foldl (raw_settle yahoo) (raw_fan_out tickers) sched"

definition raw_await_allSettled :: "raw_fanout \<Rightarrow> raw_settled list option" where
  "raw_await_allSettled st = (if raw_remaining st = 0 then those (raw_slots st) else None)"

text \<open>How the promise of the handler settles: with a response, or rejected.\<close>

datatype handled = Responds response | Throws reason

record raw_run =
  raw_upstream_calls :: "string list"
  raw_outcome :: "handled option"

definition GET_batch_raw ::
  "(nat \<Rightarrow> string \<Rightarrow> raw_upstream) \<Rightarrow> nat list \<Rightarrow> string option \<Rightarrow> raw_run" where
  "GET_batch_raw yahoo sched q =
     (let tickers = parse_tickers (tickersParam q) in
      if tickers = []
      then \<lparr>raw_upstream_calls = [],
            raw_outcome =
              Some (Responds \<lparr>status = 400, body = ErrorBody ''Missing tickers''\<rparr>)\<rparr>
      else
        let st = raw_fan_in yahoo tickers sched in
        \<lparr>raw_upstream_calls = raw_calls st,
         raw_outcome =
           (case raw_await_allSettled st of
              None \<Rightarrow> None
            | Some results \<Rightarrow>
                Some (case collect (map (\<lambda>i. raw_to_row (tickers ! i) (results ! i))
                                       [0 ..< length results]) of
                        Inl e \<Rightarrow> Throws e
                      | Inr data \<Rightarrow> Responds \<lparr>status = 200, body = DataBody data\<rparr>))\<rparr>)"

text \<open>A provider of the first run, seen as one of the second.\<close>

definition convertible :: "upstream \<Rightarrow> raw_upstream" where
  "convertible u = (case u of Fulfils q \<Rightarrow> Raw_Fulfils q | Rejects e \<Rightarrow> Raw_Rejects (Convertible e))"

definition convertible_settled :: "settled \<Rightarrow> raw_settled" where
  "convertible_settled r =
     (case r of Fulfilled v \<Rightarrow> Raw_Fulfilled v | Rejected e \<Rightarrow> Raw_Rejected (Convertible e))"

definition convertible_state :: "fanout \<Rightarrow> raw_fanout" where
  "convertible_state st =
     \<lparr>raw_calls = calls st, raw_slots = map (map_option convertible_settled) (slots st),
      raw_remaining = remaining st\<rparr>"

section \<open>The history endpoint (\<open>src/app/api/history/route.ts\<close>, lines 8 to 27)\<close>

definition RANGE_TO_DAYS :: jsval where
  "RANGE_TO_DAYS =
     Obj [(''1m'', Num (Finite 31)), (''3m'', Num (Finite 93)),
          (''6m'', Num (Finite 186)), (''1y'', Num (Finite 366))]"

record history_run =
  historical_calls :: "(string \<times> jsval) list"
  history_response :: "response option"

text \<open>
  The handler \<open>GET\<close> of the history route up to its provider call. What follows the two
  checks (lines 28 to 53: the dates computed from \<open>days\<close>, the call
  \<open>yahoo.historical(ticker, ...)\<close> and the reshaping of its rows inside \<open>try\<close>/\<open>catch\<close>)
  is the parameter \<open>historical\<close>: the response these lines produce for the ticker, the
  range and the days, or none while the provider's promise is pending.
\<close>

definition GET_history ::
  "(string \<Rightarrow> string \<Rightarrow> jsval \<Rightarrow> response option) \<Rightarrow> string option \<Rightarrow> string option \<Rightarrow> history_run" where
  "GET_history historical ticker_q range_q =
     (let ticker = toUpperCase (or_default ticker_q []);
          range = toLowerCase (or_default range_q ''1y'') in
      if ticker = []
      then \<lparr>historical_calls = [],
            history_response = Some \<lparr>status = 400, body = ErrorBody ''Missing ticker''\<rparr>\<rparr>
      else if \<not> truthy (get_prop RANGE_TO_DAYS range)
      then \<lparr>historical_calls = [],
            history_response = Some \<lparr>status = 400, body = ErrorBody ''Invalid range''\<rparr>\<rparr>
      else
        let days = get_prop RANGE_TO_DAYS range in
        \<lparr>historical_calls = [(ticker, days)],
         history_response = historical ticker range days\<rparr>)"

section \<open>Notions used to state the properties\<close>

text \<open>The number of slots that are still empty.\<close>

definition unsettled :: "settled option list \<Rightarrow> nat" where
  "unsettled xs = length (filter (\<lambda>s. s = None) xs)"

text \<open>Every one of the first \<open>n\<close> calls has settled in \<open>sched\<close>.\<close>

definition all_settled :: "nat \<Rightarrow> nat list \<Rightarrow> bool" where
  "all_settled n sched = list_all (\<lambda>i. i \<in> set sched) [0 ..< n]"

text \<open>How the lookup at position \<open>i\<close> settles, and the row it becomes.\<close>

definition outcome :: "(nat \<Rightarrow> string \<Rightarrow> upstream) \<Rightarrow> string list \<Rightarrow> nat \<Rightarrow> settled" where
  "outcome yahoo tickers i = quote_task (tickers ! i) (yahoo i (tickers ! i))"

definition rows :: "(nat \<Rightarrow> string \<Rightarrow> upstream) \<Rightarrow> string list \<Rightarrow> quote_row list" where
  "rows yahoo tickers =
     map (\<lambda>i. to_row (tickers ! i) (outcome yahoo tickers i)) [0 ..< length tickers]"

text \<open>What \<open>trim\<close> does to the list of units.\<close>

definition strip :: "string list \<Rightarrow> string list" where
  "strip us = rev (dropWhile is_whitespace (rev (dropWhile is_whitespace us)))"

text \<open>\<open>pieces.join(",")\<close>, the inverse of \<open>split(",")\<close>.\<close>

fun join_comma :: "string list \<Rightarrow> string" where
  "join_comma [] = []"
| "join_comma [p] = p"
| "join_comma (p # ps) = p @ CHR '','' # join_comma ps"

section \<open>Example providers\<close>

text \<open>
  A payload and a rejection reason of the provider, a provider that settles every call
  in the same way, and one whose first call is rejected while the others are fulfilled.
\<close>

definition apple_payload :: jsval where
  "apple_payload =
     Obj [(''shortName'', Str ''Apple Inc.''), (''longName'', Str ''Apple Inc. Common Stock''),
          (''regularMarketPrice'', Num (Finite (379 / 2))),
          (''regularMarketChangePercent'', Num (Finite (- 1 / 2))),
          (''currency'', Str ''USD'')]"

definition not_found :: reason where
  "not_found = \<lparr>message = Str ''Quote not found'', string_form = ''Error: Quote not found''\<rparr>"

definition always :: "upstream \<Rightarrow> nat \<Rightarrow> string \<Rightarrow> upstream" where
  "always u i t = u"

definition first_fails :: "nat \<Rightarrow> string \<Rightarrow> upstream" where
  "first_fails i t = (if i = 0 then Rejects not_found else Fulfils apple_payload)"

text \<open>
  A payload whose short name is the empty string, the reason that \<open>new Error("")\<close>
  is, a payload with a long name and nothing else, a provider of the second run that
  settles every call in the same way, and a stand-in for the lines after the checks of
  the history route.
\<close>

definition empty_short_name :: jsval where
  "empty_short_name = Obj [(''shortName'', Str ''''), (''longName'', Str ''Apple Inc.'')]"

definition empty_message :: reason where
  "empty_message = \<lparr>message = Str '''', string_form = ''Error''\<rparr>"

definition bare_payload :: jsval where
  "bare_payload = Obj [(''longName'', Str ''Apple Inc.'')]"


definition history_fails :: "string \<Rightarrow> string \<Rightarrow> jsval \<Rightarrow> response option" where
  "history_fails t r d =
     Some \<lparr>status = 500, body = FailedBody ''Failed to fetch history'' (Str ''upstream failure'')\<rparr>"

section \<open>The string operations\<close>

lemmas str_eval =
  toUpperCase_def toLowerCase_def upper_unit_def lower_unit_def decode_unit_def encode_unit_def
  upper_code_point_def lower_code_point_def is_continuation_def is_whitespace_def
  whitespace_code_points_def trim_def parse_tickers_def char_of_eq_iff map_range_def

lemma split_comma_not_Nil: "split_comma s \<noteq> []"
  by (induction s) (auto split: list.splits)

lemma utf8_units_Nil_iff: "utf8_units s = [] \<longleftrightarrow> s = []"
  by (cases s) (auto split: list.splits)

lemma utf8_units_nonempty: "[] \<notin> set (utf8_units s)"
  by (induction s) (auto split: list.splits)

lemma concat_utf8_units: "concat (utf8_units s) = s"
  by (induction s) (auto split: list.splits)

lemma concat_Nil_iff: "[] \<notin> set us \<Longrightarrow> concat us = [] \<longleftrightarrow> us = []"
  by (cases us) auto

lemma upper_special_nonempty: "list_all (\<lambda>(n, ns). ns \<noteq> []) upper_special"
  by (simp add: upper_special_def)

lemma encode_unit_nonempty: "encode_unit n \<noteq> []"
  by (simp add: encode_unit_def)

lemma upper_code_point_nonempty: "upper_code_point n \<noteq> []"
proof (cases "map_of upper_special n")
  case None
  then show ?thesis by (simp add: upper_code_point_def)
next
  case (Some ns)
  then have "(n, ns) \<in> set upper_special" by (rule map_of_SomeD)
  with upper_special_nonempty have "ns \<noteq> []" by (auto simp: list_all_iff)
  with Some show ?thesis by (simp add: upper_code_point_def)
qed

lemma upper_unit_Nil_iff: "upper_unit u = [] \<longleftrightarrow> u = []"
proof (cases "decode_unit u")
  case None
  then show ?thesis by (simp add: upper_unit_def)
next
  case (Some n)
  then have "u \<noteq> []" by (auto simp: decode_unit_def)
  moreover have "concat (map encode_unit (upper_code_point n)) \<noteq> []"
    using upper_code_point_nonempty [of n]
    by (cases "upper_code_point n") (simp_all add: encode_unit_nonempty)
  ultimately show ?thesis using Some by (simp add: upper_unit_def)
qed

lemma toUpperCase_Nil_iff: "toUpperCase s = [] \<longleftrightarrow> s = []"
proof
  assume e: "toUpperCase s = []"
  show "s = []"
  proof (rule ccontr)
    assume "s \<noteq> []"
    then obtain u us where us: "utf8_units s = u # us"
      using utf8_units_Nil_iff [of s] by (cases "utf8_units s") auto
    then have "u \<noteq> []" using utf8_units_nonempty [of s] by auto
    then have "upper_unit u \<noteq> []" by (simp add: upper_unit_Nil_iff)
    with e us show False by (simp add: toUpperCase_def)
  qed
next
  assume "s = []"
  then show "toUpperCase s = []" by (simp add: toUpperCase_def)
qed

lemma strip_Nil_iff: "strip us = [] \<longleftrightarrow> list_all is_whitespace us"
proof -
  let ?d = "dropWhile is_whitespace us"
  have "strip us = [] \<longleftrightarrow> (\<forall>x\<in>set ?d. is_whitespace x)"
    by (simp add: strip_def)
  also have "\<dots> \<longleftrightarrow> ?d = []"
  proof
    assume all: "\<forall>x\<in>set ?d. is_whitespace x"
    show "?d = []"
    proof (rule ccontr)
      assume ne: "?d \<noteq> []"
      then have "\<not> is_whitespace (hd ?d)" by (rule hd_dropWhile)
      moreover have "hd ?d \<in> set ?d" using ne by (rule hd_in_set)
      ultimately show False using all by blast
    qed
  next
    assume a: "?d = []"
    show "\<forall>x\<in>set ?d. is_whitespace x" unfolding a by simp
  qed
  also have "\<dots> \<longleftrightarrow> list_all is_whitespace us"
    by (simp add: list_all_iff)
  finally show ?thesis .
qed

lemma strip_subset: "set (strip us) \<subseteq> set us"
proof -
  have "set (strip us) \<subseteq> set (dropWhile is_whitespace us)"
    unfolding strip_def using set_dropWhileD by (metis set_rev subsetI)
  also have "\<dots> \<subseteq> set us"
    using set_dropWhileD by fastforce
  finally show ?thesis .
qed

lemma last_dropWhile: "dropWhile P xs \<noteq> [] \<Longrightarrow> last (dropWhile P xs) = last xs"
  by (metis last_appendR takeWhile_dropWhile_id)

lemma strip_ends:
  assumes "strip us \<noteq> []"
  shows "\<not> is_whitespace (hd (strip us))" and "\<not> is_whitespace (last (strip us))"
proof -
  let ?d = "dropWhile is_whitespace us"
  let ?e = "dropWhile is_whitespace (rev ?d)"
  from assms have e: "?e \<noteq> []" by (simp add: strip_def)
  then have "\<not> is_whitespace (hd ?e)" by (rule hd_dropWhile)
  then show "\<not> is_whitespace (last (strip us))"
    using e by (simp add: strip_def last_rev)
  have d: "?d \<noteq> []"
  proof
    assume a: "?d = []"
    have "?e = []" unfolding a by simp
    with e show False by simp
  qed
  then have hd_d: "\<not> is_whitespace (hd ?d)" by (rule hd_dropWhile)
  have "hd (strip us) = last ?e" using e by (simp add: strip_def hd_rev)
  also have "\<dots> = last (rev ?d)" using e by (rule last_dropWhile)
  also have "\<dots> = hd ?d" using d by (simp add: last_rev)
  finally show "\<not> is_whitespace (hd (strip us))" using hd_d by simp
qed

lemma strip_decompose:
  "\<exists>pre post. us = pre @ strip us @ post \<and> list_all is_whitespace pre \<and> list_all is_whitespace post"
proof -
  let ?d = "dropWhile is_whitespace us"
  let ?r = "rev ?d"
  have 1: "us = takeWhile is_whitespace us @ ?d" by simp
  have 2: "?r = takeWhile is_whitespace ?r @ dropWhile is_whitespace ?r" by simp
  have "?d = rev ?r" by simp
  also have "\<dots> = rev (dropWhile is_whitespace ?r) @ rev (takeWhile is_whitespace ?r)"
    by (subst 2) (simp only: rev_append)
  finally have 3: "?d = strip us @ rev (takeWhile is_whitespace ?r)" by (simp add: strip_def)
  have "us = takeWhile is_whitespace us @ strip us @ rev (takeWhile is_whitespace ?r)"
    using 1 3 by metis
  moreover have "list_all is_whitespace (takeWhile is_whitespace us)"
    by (simp add: list_all_iff) (meson set_takeWhileD)
  moreover have "list_all is_whitespace (rev (takeWhile is_whitespace ?r))"
    by (simp add: list_all_iff) (meson set_takeWhileD)
  ultimately show ?thesis by blast
qed

lemma trim_strip: "trim s = concat (strip (utf8_units s))"
  by (simp add: trim_def strip_def)

lemma trim_Nil_iff: "trim s = [] \<longleftrightarrow> list_all is_whitespace (utf8_units s)"
proof -
  have "[] \<notin> set (strip (utf8_units s))"
    using strip_subset [of "utf8_units s"] utf8_units_nonempty [of s] by blast
  then have "concat (strip (utf8_units s)) = [] \<longleftrightarrow> strip (utf8_units s) = []"
    by (rule concat_Nil_iff)
  then have "trim s = [] \<longleftrightarrow> strip (utf8_units s) = []"
    by (simp only: trim_strip)
  then show ?thesis by (simp add: strip_Nil_iff)
qed

lemma parse_tickers_Nil_iff:
  "parse_tickers s = [] \<longleftrightarrow>
   list_all (\<lambda>p. list_all is_whitespace (utf8_units p)) (split_comma s)"
  by (simp add: parse_tickers_def filter_empty_conv list_all_iff toUpperCase_Nil_iff trim_Nil_iff)

lemma parse_tickers_drop_then_upper:
  "parse_tickers s = map toUpperCase (filter (\<lambda>p. p \<noteq> []) (map trim (split_comma s)))"
  by (simp add: parse_tickers_def filter_map comp_def toUpperCase_Nil_iff)

lemma parse_tickers_nonempty: "list_all (\<lambda>t. t \<noteq> []) (parse_tickers s)"
  by (simp add: parse_tickers_def list_all_iff)

lemma utf8_units_ascii: "list_all is_ascii s \<Longrightarrow> utf8_units s = map (\<lambda>c. [c]) s"
proof (induction s)
  case Nil
  show ?case by simp
next
  case (Cons c cs)
  then have IH: "utf8_units cs = map (\<lambda>c. [c]) cs" by simp
  show ?case
  proof (cases cs)
    case Nil
    then show ?thesis by simp
  next
    case (Cons d ds)
    with Cons.prems have "\<not> is_continuation d"
      by (simp add: is_ascii_def is_continuation_def)
    with IH Cons show ?thesis by simp
  qed
qed

lemma decode_unit_ascii: "is_ascii c \<Longrightarrow> decode_unit [c] = Some (of_char c)"
  by (simp add: decode_unit_def is_ascii_def)

lemma upper_unit_ascii: "is_ascii c \<Longrightarrow> upper_unit [c] = [upper_char c]"
  by (auto simp: upper_unit_def decode_unit_ascii upper_code_point_def encode_unit_def
      upper_char_def is_lower_def is_ascii_def)

lemma lower_unit_ascii: "is_ascii c \<Longrightarrow> lower_unit [c] = [lower_char c]"
  by (auto simp: lower_unit_def decode_unit_ascii lower_code_point_def encode_unit_def
      lower_char_def is_upper_def is_ascii_def)

lemma toUpperCase_ascii: "list_all is_ascii s \<Longrightarrow> toUpperCase s = map upper_char s"
proof -
  assume a: "list_all is_ascii s"
  then have "toUpperCase s = concat (map (\<lambda>c. upper_unit [c]) s)"
    by (simp add: toUpperCase_def utf8_units_ascii comp_def)
  also have "\<dots> = concat (map (\<lambda>c. [upper_char c]) s)"
    using a by (induction s) (simp_all add: upper_unit_ascii)
  also have "\<dots> = map upper_char s"
    by (induction s) simp_all
  finally show ?thesis .
qed

lemma toLowerCase_ascii: "list_all is_ascii s \<Longrightarrow> toLowerCase s = map lower_char s"
proof -
  assume a: "list_all is_ascii s"
  then have "toLowerCase s = concat (map (\<lambda>c. lower_unit [c]) s)"
    by (simp add: toLowerCase_def utf8_units_ascii comp_def)
  also have "\<dots> = concat (map (\<lambda>c. [lower_char c]) s)"
    using a by (induction s) (simp_all add: lower_unit_ascii)
  also have "\<dots> = map lower_char s"
    by (induction s) simp_all
  finally show ?thesis .
qed

lemma join_split_comma: "join_comma (split_comma s) = s"
proof (induction s)
  case Nil
  show ?case by simp
next
  case (Cons c cs)
  show ?case
  proof (cases "c = CHR '',''")
    case True
    obtain p ps where "split_comma cs = p # ps"
      using split_comma_not_Nil [of cs] by (cases "split_comma cs") auto
    with True Cons.IH show ?thesis by simp
  next
    case False
    obtain p ps where ps: "split_comma cs = p # ps"
      using split_comma_not_Nil [of cs] by (cases "split_comma cs") auto
    with False Cons.IH show ?thesis by (cases ps) simp_all
  qed
qed

lemma split_comma_no_comma: "list_all (\<lambda>p. CHR '','' \<notin> set p) (split_comma s)"
  by (induction s) (auto split: list.splits)

lemma trim_units:
  "\<exists>pre mid post.
     utf8_units p = pre @ mid @ post \<and> trim p = concat mid \<and>
     list_all is_whitespace pre \<and> list_all is_whitespace post \<and>
     (mid = [] \<or> \<not> is_whitespace (hd mid) \<and> \<not> is_whitespace (last mid))"
proof -
  from strip_decompose [of "utf8_units p"] obtain pre post where
    d: "utf8_units p = pre @ strip (utf8_units p) @ post"
    and w: "list_all is_whitespace pre" "list_all is_whitespace post"
    by blast
  have "strip (utf8_units p) = [] \<or>
      \<not> is_whitespace (hd (strip (utf8_units p))) \<and> \<not> is_whitespace (last (strip (utf8_units p)))"
    using strip_ends [of "utf8_units p"] by blast
  with d w trim_strip [of p] show ?thesis by blast
qed

lemma parse_example:
  "parse_tickers ''  aapl , MSFT,, msft '' = [''AAPL'', ''MSFT'', ''MSFT'']"
  by (simp add: str_eval)

lemma upper_examples:
  "toUpperCase [CHR 0xC3, CHR 0xA9] = [CHR 0xC3, CHR 0x89]"
  "toUpperCase [CHR 0xC3, CHR 0x9F] = ''SS''"
  by (simp_all add: str_eval upper_special_def upper_ranges_def)

lemma trim_example:
  "trim ([CHR 0xC2, CHR 0xA0] @ ''sqm-b.sn'' @ [CHR 0xE2, CHR 0x80, CHR 0x83, CHR 0x09]) = ''sqm-b.sn''"
  by (simp add: str_eval)

section \<open>Fan-out and fan-in\<close>

text \<open>
  The state of \<open>allSettled\<close> after any schedule: the calls are the tickers, slot \<open>j\<close>
  holds the outcome of lookup \<open>j\<close> once \<open>j\<close> is in the schedule, and the count is the
  number of empty slots, so it is zero exactly when every lookup has settled.
\<close>

lemma foldl_start_lookup:
  "foldl start_lookup st ts =
     \<lparr>calls = calls st @ ts, slots = slots st @ replicate (length ts) None,
      remaining = remaining st + length ts\<rparr>"
proof (induction ts arbitrary: st)
  case Nil
  show ?case by simp
next
  case (Cons t ts)
  have "foldl start_lookup st (t # ts) = foldl start_lookup (start_lookup st t) ts"
    by simp
  also have "\<dots> =
      \<lparr>calls = calls (start_lookup st t) @ ts,
       slots = slots (start_lookup st t) @ replicate (length ts) None,
       remaining = remaining (start_lookup st t) + length ts\<rparr>"
    by (rule Cons.IH)
  also have "\<dots> =
      \<lparr>calls = calls st @ t # ts, slots = slots st @ replicate (length (t # ts)) None,
       remaining = remaining st + length (t # ts)\<rparr>"
    by (simp add: start_lookup_def)
  finally show ?case .
qed

lemma fan_out_eq:
  "fan_out tickers =
     \<lparr>calls = tickers, slots = replicate (length tickers) None, remaining = length tickers\<rparr>"
  by (simp add: fan_out_def foldl_start_lookup)

lemma settle_calls: "calls (settle yahoo st i) = calls st"
  by (simp add: settle_def)

lemma settle_length: "length (slots (settle yahoo st i)) = length (slots st)"
  by (simp add: settle_def)

lemma run_calls: "calls (foldl (settle yahoo) st sched) = calls st"
  by (induction sched arbitrary: st) (simp_all add: settle_calls)

lemma run_length: "length (slots (foldl (settle yahoo) st sched)) = length (slots st)"
  by (induction sched arbitrary: st) (simp_all add: settle_length)

lemma unsettled_update:
  "i < length xs \<Longrightarrow> xs ! i = None \<Longrightarrow> unsettled (xs[i := Some r]) = unsettled xs - 1"
proof (induction xs arbitrary: i)
  case Nil
  then show ?case by simp
next
  case (Cons x xs)
  show ?case
  proof (cases i)
    case 0
    with Cons.prems show ?thesis by (simp add: unsettled_def)
  next
    case (Suc j)
    with Cons.prems have j: "j < length xs" "xs ! j = None" by simp_all
    then have pos: "0 < unsettled xs"
      by (auto simp: unsettled_def filter_empty_conv in_set_conv_nth)
    from Cons.IH [OF j] Suc pos show ?thesis by (simp add: unsettled_def)
  qed
qed

lemma settle_remaining:
  "remaining st = unsettled (slots st) \<Longrightarrow>
   remaining (settle yahoo st i) = unsettled (slots (settle yahoo st i))"
  by (simp add: settle_def unsettled_update)

lemma run_remaining:
  "remaining st = unsettled (slots st) \<Longrightarrow>
   remaining (foldl (settle yahoo) st sched) = unsettled (slots (foldl (settle yahoo) st sched))"
  by (induction sched arbitrary: st) (simp_all add: settle_remaining)

lemma settle_slot:
  "length (slots st) = length (calls st) \<Longrightarrow> j < length (calls st) \<Longrightarrow>
   slots (settle yahoo st i) ! j =
     (case slots st ! j of
        Some r \<Rightarrow> Some r
      | None \<Rightarrow> if j = i then Some (quote_task (calls st ! j) (yahoo j (calls st ! j))) else None)"
  by (auto simp: settle_def nth_list_update split: option.splits)

lemma run_slot:
  "length (slots st) = length (calls st) \<Longrightarrow> j < length (calls st) \<Longrightarrow>
   slots (foldl (settle yahoo) st sched) ! j =
     (case slots st ! j of
        Some r \<Rightarrow> Some r
      | None \<Rightarrow> if j \<in> set sched then Some (quote_task (calls st ! j) (yahoo j (calls st ! j))) else None)"
proof (induction sched arbitrary: st)
  case Nil
  then show ?case by (simp split: option.splits)
next
  case (Cons i sched)
  have len: "length (slots (settle yahoo st i)) = length (calls (settle yahoo st i))"
    using Cons.prems by (simp add: settle_length settle_calls)
  have j: "j < length (calls (settle yahoo st i))"
    using Cons.prems by (simp add: settle_calls)
  show ?case
    using Cons.IH [OF len j] Cons.prems
    by (simp add: settle_slot settle_calls split: option.splits)
qed

lemma all_settled_iff: "all_settled n sched \<longleftrightarrow> (\<forall>i<n. i \<in> set sched)"
  by (auto simp: all_settled_def list_all_iff)

lemma fan_in_calls: "calls (fan_in yahoo tickers sched) = tickers"
  by (simp add: fan_in_def run_calls fan_out_eq)

lemma fan_in_length: "length (slots (fan_in yahoo tickers sched)) = length tickers"
  by (simp add: fan_in_def run_length fan_out_eq)

lemma fan_in_slot:
  assumes "j < length tickers"
  shows "slots (fan_in yahoo tickers sched) ! j =
           (if j \<in> set sched then Some (outcome yahoo tickers j) else None)"
  using run_slot [of "fan_out tickers" j yahoo sched] assms
  by (simp add: fan_in_def fan_out_eq outcome_def)

lemma fan_in_remaining:
  "remaining (fan_in yahoo tickers sched) = unsettled (slots (fan_in yahoo tickers sched))"
  unfolding fan_in_def by (rule run_remaining) (simp add: fan_out_eq unsettled_def)

lemma unsettled_zero: "unsettled xs = 0 \<longleftrightarrow> (\<forall>i<length xs. xs ! i \<noteq> None)"
  by (auto simp: unsettled_def filter_empty_conv in_set_conv_nth)

lemma fan_in_remaining_zero:
  "remaining (fan_in yahoo tickers sched) = 0 \<longleftrightarrow> all_settled (length tickers) sched"
  by (auto simp: fan_in_remaining unsettled_zero fan_in_length fan_in_slot all_settled_iff)

lemma those_map_Some: "those (map (Some \<circ> f) xs) = Some (map f xs)"
  by (induction xs) simp_all

lemma fan_in_slots_settled:
  assumes "all_settled (length tickers) sched"
  shows "slots (fan_in yahoo tickers sched) =
           map (Some \<circ> outcome yahoo tickers) [0 ..< length tickers]"
  using assms
  by (intro nth_equalityI) (simp_all add: fan_in_length fan_in_slot all_settled_iff)

lemma await_fan_in:
  "await_allSettled (fan_in yahoo tickers sched) =
     (if all_settled (length tickers) sched
      then Some (map (outcome yahoo tickers) [0 ..< length tickers])
      else None)"
  by (simp add: await_allSettled_def fan_in_remaining_zero fan_in_slots_settled those_map_Some)

lemma GET_batch_run:
  "GET_batch yahoo sched q =
     (let tickers = parse_tickers (tickersParam q) in
      if tickers = []
      then \<lparr>upstream_calls = [],
            responded = Some \<lparr>status = 400, body = ErrorBody ''Missing tickers''\<rparr>\<rparr>
      else \<lparr>upstream_calls = tickers,
            responded =
              (if all_settled (length tickers) sched
               then Some \<lparr>status = 200, body = DataBody (rows yahoo tickers)\<rparr>
               else None)\<rparr>)"
  by (simp add: GET_batch_def Let_def await_fan_in fan_in_calls rows_def cong: map_cong)

lemma rows_length: "length (rows yahoo tickers) = length tickers"
  by (simp add: rows_def)

lemma rows_nth:
  "i < length tickers \<Longrightarrow> rows yahoo tickers ! i = to_row (tickers ! i) (outcome yahoo tickers i)"
  by (simp add: rows_def)

lemma quote_task_ticker: "quote_task t u = Fulfilled v \<Longrightarrow> ticker v = t"
  by (auto simp: quote_task_def split: upstream.splits if_splits)

lemma to_row_ticker: "row_ticker (to_row t (quote_task t u)) = t"
  by (cases "quote_task t u") (auto simp: to_row_def dest: quote_task_ticker)

lemma rows_tickers: "map row_ticker (rows yahoo tickers) = tickers"
  by (intro nth_equalityI) (simp_all add: rows_length rows_nth outcome_def to_row_ticker)

lemma GET_batch_settled:
  assumes "parse_tickers (tickersParam q) = tickers" and "tickers \<noteq> []"
    and "\<forall>i<length tickers. i \<in> set sched"
  shows "GET_batch yahoo sched q =
           \<lparr>upstream_calls = tickers,
            responded = Some \<lparr>status = 200, body = DataBody (rows yahoo tickers)\<rparr>\<rparr>"
  using assms by (simp add: GET_batch_run all_settled_iff)

lemma GET_batch_pending:
  assumes "parse_tickers (tickersParam q) = tickers" and "tickers \<noteq> []"
    and "\<not> (\<forall>i<length tickers. i \<in> set sched)"
  shows "GET_batch yahoo sched q = \<lparr>upstream_calls = tickers, responded = None\<rparr>"
  using assms by (simp add: GET_batch_run all_settled_iff)

lemma parse_x_aapl_aapl:
  "parse_tickers (tickersParam (Some ''x, aapl ,aapl'')) = [''X'', ''AAPL'', ''AAPL'']"
  by (simp add: tickersParam_def or_default_def str_eval)

lemma parse_aapl_aapl:
  "parse_tickers (tickersParam (Some ''aapl,aapl'')) = [''AAPL'', ''AAPL'']"
  by (simp add: tickersParam_def or_default_def str_eval)

lemma parse_aapl_zzzz:
  "parse_tickers (tickersParam (Some ''AAPL,ZZZZINVALID'')) = [''AAPL'', ''ZZZZINVALID'']"
  by (simp add: tickersParam_def or_default_def str_eval)

lemma to_row_Rejects:
  "to_row t (quote_task t (Rejects e)) = Failure t (js_or (message e) (Str (string_form e)))"
  by (simp add: to_row_def quote_task_def)

text \<open>
  A payload that cannot be read is a failed lookup: the arrow throws at \<open>q.shortName\<close>,
  its promise is rejected, and the row reports the \<open>TypeError\<close>.
\<close>

lemma to_row_unreadable:
  "to_row t (quote_task t (Fulfils Undefined)) =
     Failure t (message (cannot_read ''undefined'' ''shortName''))"
  "to_row t (quote_task t (Fulfils Null)) =
     Failure t (message (cannot_read ''null'' ''shortName''))"
  by (simp_all add: to_row_def quote_task_def js_or_def cannot_read_def Let_def)

lemma tickersParam_simps: "tickersParam None = []" "tickersParam (Some s) = s"
  by (simp_all add: tickersParam_def or_default_def)

lemma apple_row:
  "to_row ''AAPL'' (quote_task ''AAPL'' (Fulfils apple_payload)) =
     Success \<lparr>ticker = ''AAPL'', name = Str ''Apple Inc.'',
              price = Num (Finite (379 / 2)), changePercent = Num (Finite (- 1 / 2)),
              currency = Str ''USD''\<rparr>"
  by (simp add: to_row_def quote_task_def apple_payload_def js_or_def)

lemma not_found_row:
  "to_row t (quote_task t (Rejects not_found)) = Failure t (Str ''Quote not found'')"
  by (simp add: to_row_def quote_task_def not_found_def js_or_def)

lemma parse_aapl: "parse_tickers (tickersParam (Some ''aapl'')) = [''AAPL'']"
  by (simp add: tickersParam_def or_default_def str_eval)

lemma to_row_Fulfils:
  assumes "payload \<noteq> Undefined" and "payload \<noteq> Null"
  shows "to_row t (quote_task t (Fulfils payload)) =
           Success
             \<lparr>ticker = t,
              name = (if truthy (get_prop payload ''shortName'') then get_prop payload ''shortName''
                      else if truthy (get_prop payload ''longName'') then get_prop payload ''longName''
                      else Str t),
              price = get_prop payload ''regularMarketPrice'',
              changePercent = get_prop payload ''regularMarketChangePercent'',
              currency = get_prop payload ''currency''\<rparr>"
  using assms by (simp add: to_row_def quote_task_def js_or_def)

lemma GET_batch_row:
  assumes "parse_tickers (tickersParam q) = tickers" and "i < length tickers"
    and "\<forall>k<length tickers. k \<in> set sched"
  shows "\<exists>data. responded (GET_batch yahoo sched q) = Some \<lparr>status = 200, body = DataBody data\<rparr> \<and>
           length data = length tickers \<and>
           (\<forall>k<length tickers.
              data ! k = to_row (tickers ! k) (quote_task (tickers ! k) (yahoo k (tickers ! k))))"
proof -
  from assms(2) have ne: "tickers \<noteq> []" by auto
  show ?thesis
    by (rule exI [of _ "rows yahoo tickers"])
      (simp add: GET_batch_settled [OF assms(1) ne assms(3)] rows_length rows_nth outcome_def)
qed

lemma quote_fields_not_inherited:
  "inherited ''regularMarketPrice'' = Undefined"
  "inherited ''regularMarketChangePercent'' = Undefined"
  "inherited ''currency'' = Undefined"
  by (simp_all add: inherited_def Object_prototype_keys_def)

lemma to_row_Fulfilled: "ok (to_row t (Fulfilled v))" "to_row t (Fulfilled v) = Success v"
  by (simp_all add: to_row_def)

section \<open>The checks of the history route\<close>

text \<open>
  \<open>RANGE_TO_DAYS[range]\<close> is truthy for the four keys of the table and for the names
  that the table inherits from \<open>Object.prototype\<close>.
\<close>

lemma inherited_keys:
  "''constructor'' \<in> set Object_prototype_keys" "''__proto__'' \<in> set Object_prototype_keys"
  by (simp_all add: Object_prototype_keys_def)

lemma range_accepted:
  "truthy (get_prop RANGE_TO_DAYS r) \<longleftrightarrow>
   r \<in> set [''1m'', ''3m'', ''6m'', ''1y''] \<or> r \<in> set Object_prototype_keys"
  by (simp add: RANGE_TO_DAYS_def inherited_def inherited_keys)

lemma range_days:
  "get_prop RANGE_TO_DAYS ''1m'' = Num (Finite 31)" "get_prop RANGE_TO_DAYS ''3m'' = Num (Finite 93)"
  "get_prop RANGE_TO_DAYS ''6m'' = Num (Finite 186)" "get_prop RANGE_TO_DAYS ''1y'' = Num (Finite 366)"
  by (simp_all add: RANGE_TO_DAYS_def)

lemma GET_history_missing_ticker:
  "toUpperCase (or_default ticker_q []) = [] \<Longrightarrow>
   GET_history historical ticker_q range_q =
     \<lparr>historical_calls = [],
      history_response = Some \<lparr>status = 400, body = ErrorBody ''Missing ticker''\<rparr>\<rparr>"
  by (simp add: GET_history_def)

lemma GET_history_checked:
  assumes "ticker_q = Some t" and "t \<noteq> []"
  shows "GET_history historical ticker_q range_q =
     (let range = toLowerCase (or_default range_q ''1y'') in
      if range \<in> set [''1m'', ''3m'', ''6m'', ''1y''] \<or> range \<in> set Object_prototype_keys
      then \<lparr>historical_calls = [(toUpperCase t, get_prop RANGE_TO_DAYS range)],
            history_response = historical (toUpperCase t) range (get_prop RANGE_TO_DAYS range)\<rparr>
      else \<lparr>historical_calls = [],
            history_response = Some \<lparr>status = 400, body = ErrorBody ''Invalid range''\<rparr>\<rparr>)"
proof -
  have t: "toUpperCase (or_default ticker_q []) = toUpperCase t" "toUpperCase t \<noteq> []"
    using assms by (simp_all add: or_default_def toUpperCase_Nil_iff)
  show ?thesis
    unfolding GET_history_def Let_def t range_accepted
    using t(2) by simp
qed

lemma case_examples:
  "toUpperCase ''aapl'' = ''AAPL''" "toLowerCase ''constructor'' = ''constructor''"
  "toLowerCase ''__proto__'' = ''__proto__''" "toLowerCase ''1Y'' = ''1y''"
  "toLowerCase ''2Y'' = ''2y''" "toLowerCase ''1y'' = ''1y''"
  by (simp_all add: str_eval)

section \<open>The run with reasons that have no string form\<close>

lemma raw_quote_task_convertible:
  "raw_quote_task t (convertible u) = convertible_settled (quote_task t u)"
  by (cases u) (simp_all add: raw_quote_task_def convertible_def convertible_settled_def quote_task_def)

lemma raw_start_lookup_convertible:
  "raw_start_lookup (convertible_state st) t = convertible_state (start_lookup st t)"
  by (simp add: raw_start_lookup_def start_lookup_def convertible_state_def)

lemma raw_fan_out_fold:
  "foldl raw_start_lookup (convertible_state st) ts = convertible_state (foldl start_lookup st ts)"
  by (induction ts arbitrary: st) (simp_all add: raw_start_lookup_convertible)

lemma raw_fan_out_convertible: "raw_fan_out tickers = convertible_state (fan_out tickers)"
proof -
  have "\<lparr>raw_calls = [], raw_slots = [], raw_remaining = 0\<rparr> =
      convertible_state \<lparr>calls = [], slots = [], remaining = 0\<rparr>"
    by (simp add: convertible_state_def)
  then show ?thesis
    by (simp only: raw_fan_out_def fan_out_def raw_fan_out_fold)
qed

lemma raw_settle_convertible:
  "raw_settle (\<lambda>i t. convertible (yahoo i t)) (convertible_state st) i =
     convertible_state (settle yahoo st i)"
  by (auto simp: raw_settle_def settle_def convertible_state_def raw_quote_task_convertible
      map_update)

lemma raw_fan_in_fold:
  "foldl (raw_settle (\<lambda>i t. convertible (yahoo i t))) (convertible_state st) sched =
     convertible_state (foldl (settle yahoo) st sched)"
  by (induction sched arbitrary: st) (simp_all add: raw_settle_convertible)

lemma raw_fan_in_convertible:
  "raw_fan_in (\<lambda>i t. convertible (yahoo i t)) tickers sched =
     convertible_state (fan_in yahoo tickers sched)"
  by (simp add: raw_fan_in_def fan_in_def raw_fan_out_convertible raw_fan_in_fold)

lemma those_map_option: "those (map (map_option f) xs) = map_option (map f) (those xs)"
proof (induction xs)
  case Nil
  show ?case by simp
next
  case (Cons x xs)
  then show ?case by (cases x; cases "those xs") simp_all
qed

lemma raw_calls_convertible: "raw_calls (convertible_state st) = calls st"
  by (simp add: convertible_state_def)

lemma raw_await_convertible:
  "raw_await_allSettled (convertible_state st) =
     map_option (map convertible_settled) (await_allSettled st)"
  by (simp add: raw_await_allSettled_def await_allSettled_def convertible_state_def
      those_map_option)

lemma raw_to_row_convertible: "raw_to_row t (convertible_settled r) = Inr (to_row t r)"
  by (cases r) (simp_all add: raw_to_row_def convertible_settled_def to_row_def)

lemma collect_Inr: "collect (map (\<lambda>x. Inr (f x)) xs) = Inr (map f xs)"
  by (induction xs) simp_all

text \<open>On reasons that have a string form the second run is the first.\<close>

lemma GET_batch_raw_convertible:
  "GET_batch_raw (\<lambda>i t. convertible (yahoo i t)) sched q =
     \<lparr>raw_upstream_calls = upstream_calls (GET_batch yahoo sched q),
      raw_outcome = map_option Responds (responded (GET_batch yahoo sched q))\<rparr>"
proof (cases "parse_tickers (tickersParam q) = []")
  case True
  then show ?thesis by (simp add: GET_batch_raw_def GET_batch_def)
next
  case False
  let ?ts = "parse_tickers (tickersParam q)"
  let ?st = "fan_in yahoo ?ts sched"
  show ?thesis
  proof (cases "await_allSettled ?st")
    case None
    with False show ?thesis
      by (simp add: GET_batch_raw_def GET_batch_def Let_def raw_fan_in_convertible
          raw_await_convertible raw_calls_convertible)
  next
    case (Some results)
    have rows: "map (\<lambda>i. raw_to_row (?ts ! i) (map convertible_settled results ! i))
                  [0 ..< length results] =
                map (\<lambda>i. Inr (to_row (?ts ! i) (results ! i))) [0 ..< length results]"
      by (simp add: raw_to_row_convertible)
    from False Some show ?thesis
      by (simp add: GET_batch_raw_def GET_batch_def Let_def raw_fan_in_convertible
          raw_await_convertible raw_calls_convertible rows collect_Inr)
  qed
qed



section \<open>Claims about the parser\<close>

text \<open>
  Claim C4. For every raw tickers string the parser splits it on the comma, trims each
  piece, uppercases each piece and drops the pieces that are empty after trimming,
  keeping the order and the duplicates of the others. The pieces are those whose
  \<open>join(",")\<close> is the input and none holds a comma. Trimming a piece \<open>p\<close> is taking away
  white space from both ends of its list of code points, white space being the code
  points of \<open>whitespace_code_points\<close>: what is left neither begins nor ends with one.
  Uppercasing maps \<open>a\<close> to \<open>z\<close> to \<open>A\<close> to \<open>Z\<close> and leaves the rest of ASCII alone;
  beyond ASCII it is the mapping of Unicode, so \<open>U+00E9\<close> becomes \<open>U+00C9\<close> and
  \<open>U+00DF\<close> becomes \<open>SS\<close>. No parsed symbol is empty, and the input
  \<open>"  aapl , MSFT,, msft "\<close> parses to \<open>["AAPL", "MSFT", "MSFT"]\<close>.
\<close>

theorem parse_tickers_pipeline:
  "parse_tickers s = map toUpperCase (filter (\<lambda>p. p \<noteq> []) (map trim (split_comma s))) \<and>
   join_comma (split_comma s) = s \<and>
   list_all (\<lambda>p. CHR '','' \<notin> set p) (split_comma s) \<and>
   (\<exists>pre mid post.
      utf8_units p = pre @ mid @ post \<and> trim p = concat mid \<and>
      list_all is_whitespace pre \<and> list_all is_whitespace post \<and>
      (mid = [] \<or> \<not> is_whitespace (hd mid) \<and> \<not> is_whitespace (last mid))) \<and>
   (list_all is_ascii p \<longrightarrow> toUpperCase p = map upper_char p) \<and>
   toUpperCase [CHR 0xC3, CHR 0xA9] = [CHR 0xC3, CHR 0x89] \<and>
   toUpperCase [CHR 0xC3, CHR 0x9F] = ''SS'' \<and>
   list_all (\<lambda>t. t \<noteq> []) (parse_tickers s) \<and>
   parse_tickers ''  aapl , MSFT,, msft '' = [''AAPL'', ''MSFT'', ''MSFT'']"
  using toUpperCase_ascii [of p]
  by (intro conjI parse_tickers_drop_then_upper join_split_comma split_comma_no_comma
      trim_units upper_examples parse_tickers_nonempty parse_example impI)

theorem parse_tickers_pipeline_witness:
  "parse_tickers ''a, b'' = map toUpperCase (filter (\<lambda>p. p \<noteq> []) (map trim (split_comma ''a, b''))) \<and>
   toUpperCase ''msft'' = ''MSFT'' \<and>
   parse_tickers ''  aapl , MSFT,, msft '' = [''AAPL'', ''MSFT'', ''MSFT'']"
proof -
  have a: "list_all is_ascii ''msft''" by (simp add: is_ascii_def)
  have u: "map upper_char ''msft'' = ''MSFT''"
    by (simp add: upper_char_def is_lower_def char_of_eq_iff)
  from parse_tickers_pipeline [of "''a, b''" "''msft''"] a u
  show ?thesis by simp
qed

section \<open>Claims about the batch response\<close>

text \<open>
  Claim C1. For every input that parses to a non-empty sequence of \<open>N\<close> symbols, once the
  \<open>N\<close> lookups have settled the response carries exactly \<open>N\<close> rows, and row \<open>i\<close> has
  the ticker of the parsed symbol at position \<open>i\<close>, in the success and in the failure
  variant alike (\<open>row_ticker\<close> reads the field of either). The order in which the
  lookups settle does not matter: every schedule in which all of them settle gives the
  same run.
\<close>

theorem batch_rows_follow_input:
  assumes "parse_tickers (tickersParam q) = tickers" and "tickers \<noteq> []"
    and "\<forall>i<length tickers. i \<in> set sched"
  shows "\<exists>data. responded (GET_batch yahoo sched q) = Some \<lparr>status = 200, body = DataBody data\<rparr> \<and>
           length data = length tickers \<and>
           (\<forall>i<length tickers. row_ticker (data ! i) = tickers ! i) \<and>
           (\<forall>sched'. (\<forall>i<length tickers. i \<in> set sched') \<longrightarrow>
              GET_batch yahoo sched' q = GET_batch yahoo sched q)"
proof (intro exI conjI)
  show "responded (GET_batch yahoo sched q) =
          Some \<lparr>status = 200, body = DataBody (rows yahoo tickers)\<rparr>"
    by (simp add: GET_batch_settled [OF assms])
  show "length (rows yahoo tickers) = length tickers"
    by (rule rows_length)
  show "\<forall>i<length tickers. row_ticker (rows yahoo tickers ! i) = tickers ! i"
    by (simp add: rows_nth outcome_def to_row_ticker)
  show "\<forall>sched'. (\<forall>i<length tickers. i \<in> set sched') \<longrightarrow>
          GET_batch yahoo sched' q = GET_batch yahoo sched q"
    by (simp add: GET_batch_settled [OF assms(1,2)] assms(3))
qed

theorem batch_rows_follow_input_witness:
  "\<exists>data. responded (GET_batch first_fails [2, 0, 1] (Some ''x, aapl ,aapl'')) =
             Some \<lparr>status = 200, body = DataBody data\<rparr> \<and>
          length data = 3 \<and>
          row_ticker (data ! 0) = ''X'' \<and> row_ticker (data ! 1) = ''AAPL'' \<and>
          row_ticker (data ! 2) = ''AAPL'' \<and>
          GET_batch first_fails [0, 1, 2] (Some ''x, aapl ,aapl'') =
            GET_batch first_fails [2, 0, 1] (Some ''x, aapl ,aapl'')"
proof -
  let ?ts = "[''X'', ''AAPL'', ''AAPL'']"
  have ne: "?ts \<noteq> []" by simp
  have s: "\<forall>i<length ?ts. i \<in> set [2, 0, 1 :: nat]" by (auto simp: less_Suc_eq)
  have s': "\<forall>i<length ?ts. i \<in> set [0, 1, 2 :: nat]" by (auto simp: less_Suc_eq)
  from batch_rows_follow_input [OF parse_x_aapl_aapl ne s, of first_fails]
  obtain data where d:
    "responded (GET_batch first_fails [2, 0, 1] (Some ''x, aapl ,aapl'')) =
       Some \<lparr>status = 200, body = DataBody data\<rparr>"
    "length data = length ?ts"
    "\<forall>i<length ?ts. row_ticker (data ! i) = ?ts ! i"
    "\<forall>sched'. (\<forall>i<length ?ts. i \<in> set sched') \<longrightarrow>
       GET_batch first_fails sched' (Some ''x, aapl ,aapl'') =
       GET_batch first_fails [2, 0, 1] (Some ''x, aapl ,aapl'')"
    by blast
  from d(3) have "row_ticker (data ! 0) = ''X''" "row_ticker (data ! 1) = ''AAPL''"
    "row_ticker (data ! 2) = ''AAPL''" by simp_all
  moreover from d(4) s' have "GET_batch first_fails [0, 1, 2] (Some ''x, aapl ,aapl'') =
      GET_batch first_fails [2, 0, 1] (Some ''x, aapl ,aapl'')" by blast
  ultimately show ?thesis using d(1,2) by simp
qed

text \<open>
  Claim C2. For every parsed batch of \<open>N\<close> symbols all \<open>N\<close> provider calls are made
  without waiting on each other: they are out when no lookup has settled yet, and after
  any settlements whatever. The handler responds exactly when every one of the \<open>N\<close>
  lookups has settled. No lookup cancels, blocks or aborts another: the slot of lookup
  \<open>j\<close> is empty until \<open>j\<close> itself settles and then holds the outcome of \<open>j\<close>, whatever
  the other lookups did.
\<close>

theorem batch_fan_out_fan_in:
  assumes "parse_tickers (tickersParam q) = tickers" and "tickers \<noteq> []"
  shows "upstream_calls (GET_batch yahoo [] q) = tickers \<and>
         responded (GET_batch yahoo [] q) = None \<and>
         upstream_calls (GET_batch yahoo sched q) = tickers \<and>
         (responded (GET_batch yahoo sched q) \<noteq> None) = (\<forall>i<length tickers. i \<in> set sched) \<and>
         (\<forall>j<length tickers.
            slots (fan_in yahoo tickers sched) ! j =
              (if j \<in> set sched
               then Some (quote_task (tickers ! j) (yahoo j (tickers ! j)))
               else None))"
proof (intro conjI)
  have none: "\<not> (\<forall>i<length tickers. i \<in> set [])"
    using assms(2) by auto
  show "upstream_calls (GET_batch yahoo [] q) = tickers"
    by (simp add: GET_batch_pending [OF assms none])
  show "responded (GET_batch yahoo [] q) = None"
    by (simp add: GET_batch_pending [OF assms none])
  show "upstream_calls (GET_batch yahoo sched q) = tickers"
    using assms by (simp add: GET_batch_run)
  show "(responded (GET_batch yahoo sched q) \<noteq> None) = (\<forall>i<length tickers. i \<in> set sched)"
    using assms by (simp add: GET_batch_run all_settled_iff)
  show "\<forall>j<length tickers.
          slots (fan_in yahoo tickers sched) ! j =
            (if j \<in> set sched
             then Some (quote_task (tickers ! j) (yahoo j (tickers ! j)))
             else None)"
    by (simp add: fan_in_slot outcome_def)
qed

theorem batch_fan_out_fan_in_witness:
  "upstream_calls (GET_batch first_fails [] (Some ''aapl,aapl'')) = [''AAPL'', ''AAPL''] \<and>
   responded (GET_batch first_fails [] (Some ''aapl,aapl'')) = None \<and>
   upstream_calls (GET_batch first_fails [0] (Some ''aapl,aapl'')) = [''AAPL'', ''AAPL''] \<and>
   responded (GET_batch first_fails [0] (Some ''aapl,aapl'')) = None \<and>
   slots (fan_in first_fails [''AAPL'', ''AAPL''] [0]) ! 0 = Some (Rejected not_found) \<and>
   slots (fan_in first_fails [''AAPL'', ''AAPL''] [0]) ! 1 = None \<and>
   responded (GET_batch first_fails [0, 1] (Some ''aapl,aapl'')) \<noteq> None"
proof -
  let ?ts = "[''AAPL'', ''AAPL'']"
  have ne: "?ts \<noteq> []" by simp
  note t0 = batch_fan_out_fan_in [OF parse_aapl_aapl ne, of first_fails "[0]"]
  note t1 = batch_fan_out_fan_in [OF parse_aapl_aapl ne, of first_fails "[0, 1]"]
  have a: "\<not> (\<forall>i<length ?ts. i \<in> set [0::nat])" by auto
  have b: "\<forall>i<length ?ts. i \<in> set [0, 1::nat]" by (auto simp: less_Suc_eq)
  have q0: "quote_task (?ts ! 0) (first_fails 0 (?ts ! 0)) = Rejected not_found"
    by (simp add: quote_task_def first_fails_def)
  from t0 have s: "\<forall>j<length ?ts.
      slots (fan_in first_fails ?ts [0]) ! j =
        (if j \<in> set [0] then Some (quote_task (?ts ! j) (first_fails j (?ts ! j))) else None)"
    by blast
  from s have s0: "slots (fan_in first_fails ?ts [0]) ! 0 = Some (Rejected not_found)"
    using q0 by simp
  from s have s1: "slots (fan_in first_fails ?ts [0]) ! 1 = None"
    by simp
  from t0 a have r0: "responded (GET_batch first_fails [0] (Some ''aapl,aapl'')) = None"
    by blast
  from t1 b have r1: "responded (GET_batch first_fails [0, 1] (Some ''aapl,aapl'')) \<noteq> None"
    by blast
  from t0 s0 s1 r0 r1 show ?thesis by blast
qed




text \<open>
  Claim C5. For every input whose parsed symbol sequence is empty the handler answers
  400 with \<open>{ error: "Missing tickers" }\<close> and makes no provider call, for every provider
  and schedule. The parsed sequence is empty exactly when the parameter is missing or
  every piece between its commas holds nothing but white space code points.
\<close>

theorem batch_missing_tickers:
  "(parse_tickers (tickersParam q) = [] \<longrightarrow>
      GET_batch yahoo sched q =
        \<lparr>upstream_calls = [],
         responded = Some \<lparr>status = 400, body = ErrorBody ''Missing tickers''\<rparr>\<rparr>) \<and>
   (parse_tickers (tickersParam q) = []) =
      (case q of None \<Rightarrow> True
       | Some s \<Rightarrow> list_all (\<lambda>p. list_all is_whitespace (utf8_units p)) (split_comma s))"
  by (cases q) (simp_all add: GET_batch_run parse_tickers_Nil_iff tickersParam_simps)

theorem batch_missing_tickers_witness:
  "GET_batch first_fails [0] (Some '' , ,,  '') =
     \<lparr>upstream_calls = [],
      responded = Some \<lparr>status = 400, body = ErrorBody ''Missing tickers''\<rparr>\<rparr> \<and>
   GET_batch first_fails [0] (Some ([CHR 0xC2, CHR 0xA0] @ '','' @ [CHR 0xE3, CHR 0x80, CHR 0x80])) =
     \<lparr>upstream_calls = [],
      responded = Some \<lparr>status = 400, body = ErrorBody ''Missing tickers''\<rparr>\<rparr> \<and>
   GET_batch first_fails [0] None =
     \<lparr>upstream_calls = [],
      responded = Some \<lparr>status = 400, body = ErrorBody ''Missing tickers''\<rparr>\<rparr>"
proof -
  have "list_all (\<lambda>p. list_all is_whitespace (utf8_units p)) (split_comma '' , ,,  '')"
    by (simp add: str_eval)
  moreover have "list_all (\<lambda>p. list_all is_whitespace (utf8_units p))
      (split_comma ([CHR 0xC2, CHR 0xA0] @ '','' @ [CHR 0xE3, CHR 0x80, CHR 0x80]))"
    by (simp add: str_eval)
  ultimately show ?thesis
    using batch_missing_tickers [of "Some '' , ,,  ''" first_fails "[0]"]
      batch_missing_tickers
        [of "Some ([CHR 0xC2, CHR 0xA0] @ '','' @ [CHR 0xE3, CHR 0x80, CHR 0x80])" first_fails "[0]"]
      batch_missing_tickers [of None first_fails "[0]"]
    by simp
qed

text \<open>
  Claim C8. When the same symbol stands at two positions \<open>i\<close> and \<open>j\<close> of a batch,
  nothing is coalesced: the provider calls are the parsed symbols, one call per
  position, both rows are there, and each row is the outcome of the call made for its
  own position. In the witness the call for the first \<open>AAPL\<close> is rejected and the call
  for the second is fulfilled.
\<close>

theorem batch_duplicates_independent:
  assumes "parse_tickers (tickersParam q) = tickers"
    and "i < length tickers" and "j < length tickers" and "i \<noteq> j"
    and "tickers ! i = tickers ! j"
    and "\<forall>k<length tickers. k \<in> set sched"
  shows "upstream_calls (GET_batch yahoo sched q) = tickers \<and>
         (\<exists>data. responded (GET_batch yahoo sched q) =
                   Some \<lparr>status = 200, body = DataBody data\<rparr> \<and>
                 length data = length tickers \<and>
                 data ! i = to_row (tickers ! i) (quote_task (tickers ! i) (yahoo i (tickers ! i))) \<and>
                 data ! j = to_row (tickers ! j) (quote_task (tickers ! j) (yahoo j (tickers ! j))))"
proof -
  from assms(2) have ne: "tickers \<noteq> []" by auto
  note run = GET_batch_settled [OF assms(1) ne assms(6), of yahoo]
  show ?thesis
  proof (intro conjI exI)
    show "upstream_calls (GET_batch yahoo sched q) = tickers"
      by (simp add: run)
    show "responded (GET_batch yahoo sched q) =
            Some \<lparr>status = 200, body = DataBody (rows yahoo tickers)\<rparr>"
      by (simp add: run)
    show "length (rows yahoo tickers) = length tickers"
      by (rule rows_length)
    show "rows yahoo tickers ! i =
            to_row (tickers ! i) (quote_task (tickers ! i) (yahoo i (tickers ! i)))"
      using assms(2) by (simp add: rows_nth outcome_def)
    show "rows yahoo tickers ! j =
            to_row (tickers ! j) (quote_task (tickers ! j) (yahoo j (tickers ! j)))"
      using assms(3) by (simp add: rows_nth outcome_def)
  qed
qed

theorem batch_duplicates_independent_witness:
  "upstream_calls (GET_batch first_fails [1, 0] (Some ''aapl,aapl'')) = [''AAPL'', ''AAPL''] \<and>
   (\<exists>data. responded (GET_batch first_fails [1, 0] (Some ''aapl,aapl'')) =
             Some \<lparr>status = 200, body = DataBody data\<rparr> \<and>
           length data = 2 \<and>
           data ! 0 = Failure ''AAPL'' (Str ''Quote not found'') \<and>
           data ! 1 = Success \<lparr>ticker = ''AAPL'', name = Str ''Apple Inc.'',
                                price = Num (Finite (379 / 2)),
                                changePercent = Num (Finite (- 1 / 2)),
                                currency = Str ''USD''\<rparr>)"
proof -
  let ?ts = "[''AAPL'', ''AAPL'']"
  have s: "\<forall>k<length ?ts. k \<in> set [1, 0 :: nat]" by (auto simp: less_Suc_eq)
  have "(0::nat) < length ?ts" "(1::nat) < length ?ts" "(0::nat) \<noteq> 1" "?ts ! 0 = ?ts ! 1"
    by simp_all
  from batch_duplicates_independent [OF parse_aapl_aapl this s, of first_fails]
  show ?thesis
    by (simp add: first_fails_def apple_row not_found_row numeral_2_eq_2)
qed

section \<open>Claims about the rows\<close>

text \<open>
  Claim C6, as amended. For every ticker whose provider call is fulfilled with a payload
  that can be read (any value but \<open>undefined\<close> and \<open>null\<close>), the row is the success
  variant. Its name is the payload's short name if that is truthy (for a string:
  present and not empty), otherwise the long name if that is truthy, otherwise the
  ticker symbol; price, change percent and currency are the payload's
  \<open>regularMarketPrice\<close>, \<open>regularMarketChangePercent\<close> and \<open>currency\<close>.
\<close>

theorem success_row_fields:
  assumes "parse_tickers (tickersParam q) = tickers" and "i < length tickers"
    and "\<forall>k<length tickers. k \<in> set sched"
    and "yahoo i (tickers ! i) = Fulfils payload"
    and "payload \<noteq> Undefined" and "payload \<noteq> Null"
  shows "\<exists>data. responded (GET_batch yahoo sched q) = Some \<lparr>status = 200, body = DataBody data\<rparr> \<and>
           data ! i =
             Success
               \<lparr>ticker = tickers ! i,
                name = (if truthy (get_prop payload ''shortName'')
                        then get_prop payload ''shortName''
                        else if truthy (get_prop payload ''longName'')
                        then get_prop payload ''longName''
                        else Str (tickers ! i)),
                price = get_prop payload ''regularMarketPrice'',
                changePercent = get_prop payload ''regularMarketChangePercent'',
                currency = get_prop payload ''currency''\<rparr>"
proof -
  from GET_batch_row [OF assms(1-3), of yahoo] obtain data where
    r: "responded (GET_batch yahoo sched q) = Some \<lparr>status = 200, body = DataBody data\<rparr>"
    and d: "\<forall>k<length tickers.
              data ! k = to_row (tickers ! k) (quote_task (tickers ! k) (yahoo k (tickers ! k)))"
    by blast
  from d assms(2) have "data ! i = to_row (tickers ! i) (quote_task (tickers ! i) (Fulfils payload))"
    by (simp add: assms(4))
  with r show ?thesis
    by (simp add: to_row_Fulfils [OF assms(5,6)])
qed

theorem success_row_fields_witness:
  "\<exists>data. responded (GET_batch (always (Fulfils bare_payload)) [0] (Some ''aapl'')) =
            Some \<lparr>status = 200, body = DataBody data\<rparr> \<and>
          data ! 0 =
            Success \<lparr>ticker = ''AAPL'', name = Str ''Apple Inc.'', price = Undefined,
                     changePercent = Undefined, currency = Undefined\<rparr>"
proof -
  let ?ts = "[''AAPL'']"
  have i: "(0::nat) < length ?ts" by simp
  have s: "\<forall>k<length ?ts. k \<in> set [0 :: nat]" by simp
  have y: "always (Fulfils bare_payload) 0 (?ts ! 0) = Fulfils bare_payload"
    by (simp add: always_def)
  have u: "bare_payload \<noteq> Undefined" "bare_payload \<noteq> Null"
    by (simp_all add: bare_payload_def)
  have g: "get_prop bare_payload ''shortName'' = Undefined"
    "get_prop bare_payload ''longName'' = Str ''Apple Inc.''"
    "get_prop bare_payload ''regularMarketPrice'' = Undefined"
    "get_prop bare_payload ''regularMarketChangePercent'' = Undefined"
    "get_prop bare_payload ''currency'' = Undefined"
    by (simp_all add: bare_payload_def inherited_def Object_prototype_keys_def)
  from success_row_fields [where yahoo = "always (Fulfils bare_payload)", OF parse_aapl i s y u]
  show ?thesis by (simp add: g)
qed

text \<open>
  Claim C6 as stated takes the short name whenever it is present. The payload
  \<open>{ shortName: "", longName: "Apple Inc." }\<close> has a short name, the empty string, and
  the row is named by the long name.
\<close>

theorem name_fallback_counterexample:
  "get_prop empty_short_name ''shortName'' = Str '''' \<and>
   responded (GET_batch (always (Fulfils empty_short_name)) [0] (Some ''aapl'')) =
     Some \<lparr>status = 200,
           body = DataBody [Success \<lparr>ticker = ''AAPL'', name = Str ''Apple Inc.'',
                                     price = Undefined, changePercent = Undefined,
                                     currency = Undefined\<rparr>]\<rparr>"
proof -
  let ?y = "always (Fulfils empty_short_name)"
  have s: "\<forall>i<length [''AAPL'']. i \<in> set [0 :: nat]" by simp
  have "GET_batch ?y [0] (Some ''aapl'') =
          \<lparr>upstream_calls = [''AAPL''],
           responded = Some \<lparr>status = 200, body = DataBody (rows ?y [''AAPL''])\<rparr>\<rparr>"
    by (rule GET_batch_settled [OF parse_aapl _ s]) simp
  then show ?thesis
    by (simp add: rows_def outcome_def to_row_def quote_task_def always_def empty_short_name_def
        js_or_def inherited_def Object_prototype_keys_def)
qed

text \<open>
  Claim C7, as amended. For every ticker whose lookup fails with a reason \<open>e\<close> (the
  provider call is rejected with it, or the payload cannot be read), the row is the
  failure variant with the ticker of its position, and its error is the \<open>message\<close> of
  \<open>e\<close> if that is truthy (for a string: present and not empty) and the string form of
  \<open>e\<close> otherwise. The failure touches this row only, every other row being the
  outcome of its own call, and nothing is retried: the provider calls are the parsed
  symbols, one per position.
\<close>

theorem failure_row_error:
  assumes "parse_tickers (tickersParam q) = tickers" and "i < length tickers"
    and "\<forall>k<length tickers. k \<in> set sched"
    and "quote_task (tickers ! i) (yahoo i (tickers ! i)) = Rejected e"
  shows "upstream_calls (GET_batch yahoo sched q) = tickers \<and>
         (\<exists>data. responded (GET_batch yahoo sched q) =
                   Some \<lparr>status = 200, body = DataBody data\<rparr> \<and>
                 data ! i =
                   Failure (tickers ! i)
                     (if truthy (message e) then message e else Str (string_form e)) \<and>
                 (\<forall>j<length tickers. j \<noteq> i \<longrightarrow>
                    data ! j =
                      to_row (tickers ! j) (quote_task (tickers ! j) (yahoo j (tickers ! j)))))"
proof -
  from assms(2) have ne: "tickers \<noteq> []" by auto
  from GET_batch_row [OF assms(1-3), of yahoo] obtain data where
    r: "responded (GET_batch yahoo sched q) = Some \<lparr>status = 200, body = DataBody data\<rparr>"
    and d: "\<forall>k<length tickers.
              data ! k = to_row (tickers ! k) (quote_task (tickers ! k) (yahoo k (tickers ! k)))"
    by blast
  from d assms(2) have "data ! i = to_row (tickers ! i) (Rejected e)"
    by (simp add: assms(4))
  then have "data ! i =
      Failure (tickers ! i) (if truthy (message e) then message e else Str (string_form e))"
    by (simp add: to_row_def js_or_def)
  moreover have "upstream_calls (GET_batch yahoo sched q) = tickers"
    by (simp add: GET_batch_settled [OF assms(1) ne assms(3)])
  ultimately show ?thesis using r d by blast
qed

theorem failure_row_error_witness:
  "upstream_calls (GET_batch first_fails [1, 0] (Some ''aapl,aapl'')) = [''AAPL'', ''AAPL''] \<and>
   (\<exists>data. responded (GET_batch first_fails [1, 0] (Some ''aapl,aapl'')) =
             Some \<lparr>status = 200, body = DataBody data\<rparr> \<and>
           data ! 0 = Failure ''AAPL'' (Str ''Quote not found'') \<and>
           data ! 1 = Success \<lparr>ticker = ''AAPL'', name = Str ''Apple Inc.'',
                                price = Num (Finite (379 / 2)),
                                changePercent = Num (Finite (- 1 / 2)),
                                currency = Str ''USD''\<rparr>)"
proof -
  let ?ts = "[''AAPL'', ''AAPL'']"
  have i: "(0::nat) < length ?ts" by simp
  have s: "\<forall>k<length ?ts. k \<in> set [1, 0 :: nat]" by (auto simp: less_Suc_eq)
  have y: "quote_task (?ts ! 0) (first_fails 0 (?ts ! 0)) = Rejected not_found"
    by (simp add: first_fails_def quote_task_def)
  from failure_row_error [where yahoo = first_fails, OF parse_aapl_aapl i s y] obtain data where
    c: "upstream_calls (GET_batch first_fails [1, 0] (Some ''aapl,aapl'')) = ?ts"
    and r: "responded (GET_batch first_fails [1, 0] (Some ''aapl,aapl'')) =
              Some \<lparr>status = 200, body = DataBody data\<rparr>"
    and d0: "data ! 0 = Failure (?ts ! 0)
                (if truthy (message not_found) then message not_found
                 else Str (string_form not_found))"
    and d: "\<forall>j<length ?ts. j \<noteq> 0 \<longrightarrow>
              data ! j = to_row (?ts ! j) (quote_task (?ts ! j) (first_fails j (?ts ! j)))"
    by blast
  from d0 have "data ! 0 = Failure ''AAPL'' (Str ''Quote not found'')"
    by (simp add: not_found_def)
  moreover from d have "data ! 1 = to_row ''AAPL'' (quote_task ''AAPL'' (Fulfils apple_payload))"
    by (simp add: first_fails_def)
  ultimately show ?thesis using c r by (simp add: apple_row)
qed

text \<open>
  Claim C7 as stated takes the message whenever the field exists. The reason
  \<open>new Error("")\<close> has the message \<open>""\<close> and the string form \<open>"Error"\<close>, and the row's
  error is the string form.
\<close>

theorem error_message_counterexample:
  "message empty_message = Str '''' \<and>
   responded (GET_batch (always (Rejects empty_message)) [0] (Some ''aapl'')) =
     Some \<lparr>status = 200, body = DataBody [Failure ''AAPL'' (Str ''Error'')]\<rparr>"
proof -
  let ?y = "always (Rejects empty_message)"
  have s: "\<forall>i<length [''AAPL'']. i \<in> set [0 :: nat]" by simp
  have "GET_batch ?y [0] (Some ''aapl'') =
          \<lparr>upstream_calls = [''AAPL''],
           responded = Some \<lparr>status = 200, body = DataBody (rows ?y [''AAPL''])\<rparr>\<rparr>"
    by (rule GET_batch_settled [OF parse_aapl _ s]) simp
  then show ?thesis
    by (simp add: rows_def outcome_def to_row_def quote_task_def always_def empty_message_def
        js_or_def)
qed

text \<open>
  Claim C10. A fulfilled lookup always becomes an \<open>ok: true\<close> row, and its price, change
  percent and currency are the payload's properties as they are, unvalidated: every
  payload that can be read gives a success row, and a property that an object payload
  lacks is \<open>undefined\<close> in that row.
\<close>

theorem fulfilled_row_unvalidated:
  assumes "parse_tickers (tickersParam q) = tickers" and "i < length tickers"
    and "\<forall>k<length tickers. k \<in> set sched"
  shows "\<exists>data. responded (GET_batch yahoo sched q) = Some \<lparr>status = 200, body = DataBody data\<rparr> \<and>
           (\<forall>v. quote_task (tickers ! i) (yahoo i (tickers ! i)) = Fulfilled v \<longrightarrow>
              data ! i = Success v \<and> ok (data ! i)) \<and>
           (\<forall>payload. yahoo i (tickers ! i) = Fulfils payload \<and> payload \<noteq> Undefined \<and>
                payload \<noteq> Null \<longrightarrow>
              (\<exists>v. data ! i = Success v \<and> ok (data ! i) \<and>
                 price v = get_prop payload ''regularMarketPrice'' \<and>
                 changePercent v = get_prop payload ''regularMarketChangePercent'' \<and>
                 currency v = get_prop payload ''currency'')) \<and>
           (\<forall>fs. yahoo i (tickers ! i) = Fulfils (Obj fs) \<longrightarrow>
              (\<exists>v. data ! i = Success v \<and>
                 (map_of fs ''regularMarketPrice'' = None \<longrightarrow> price v = Undefined) \<and>
                 (map_of fs ''regularMarketChangePercent'' = None \<longrightarrow> changePercent v = Undefined) \<and>
                 (map_of fs ''currency'' = None \<longrightarrow> currency v = Undefined)))"
proof -
  from GET_batch_row [OF assms, of yahoo] obtain data where
    r: "responded (GET_batch yahoo sched q) = Some \<lparr>status = 200, body = DataBody data\<rparr>"
    and d: "\<forall>k<length tickers.
              data ! k = to_row (tickers ! k) (quote_task (tickers ! k) (yahoo k (tickers ! k)))"
    by blast
  from d assms(2) have di:
    "data ! i = to_row (tickers ! i) (quote_task (tickers ! i) (yahoo i (tickers ! i)))"
    by simp
  have a: "\<forall>v. quote_task (tickers ! i) (yahoo i (tickers ! i)) = Fulfilled v \<longrightarrow>
              data ! i = Success v \<and> ok (data ! i)"
    by (simp add: di to_row_Fulfilled)
  have b: "\<exists>v. data ! i = Success v \<and> ok (data ! i) \<and>
                 price v = get_prop payload ''regularMarketPrice'' \<and>
                 changePercent v = get_prop payload ''regularMarketChangePercent'' \<and>
                 currency v = get_prop payload ''currency''"
    if "yahoo i (tickers ! i) = Fulfils payload" "payload \<noteq> Undefined" "payload \<noteq> Null"
    for payload
    using that by (simp add: di to_row_Fulfils)
  have c: "\<exists>v. data ! i = Success v \<and>
                 (map_of fs ''regularMarketPrice'' = None \<longrightarrow> price v = Undefined) \<and>
                 (map_of fs ''regularMarketChangePercent'' = None \<longrightarrow> changePercent v = Undefined) \<and>
                 (map_of fs ''currency'' = None \<longrightarrow> currency v = Undefined)"
    if "yahoo i (tickers ! i) = Fulfils (Obj fs)" for fs
    using that by (simp add: di to_row_Fulfils quote_fields_not_inherited)
  from r a b c show ?thesis by blast
qed

theorem fulfilled_row_unvalidated_witness:
  "\<exists>data v. responded (GET_batch (always (Fulfils bare_payload)) [0] (Some ''aapl'')) =
              Some \<lparr>status = 200, body = DataBody data\<rparr> \<and>
            data ! 0 = Success v \<and> ok (data ! 0) \<and>
            price v = Undefined \<and> changePercent v = Undefined \<and> currency v = Undefined"
proof -
  let ?ts = "[''AAPL'']"
  let ?fs = "[(''longName'', Str ''Apple Inc.'')]"
  have i: "(0::nat) < length ?ts" by simp
  have s: "\<forall>k<length ?ts. k \<in> set [0 :: nat]" by simp
  have y: "always (Fulfils bare_payload) 0 (?ts ! 0) = Fulfils (Obj ?fs)"
    by (simp add: always_def bare_payload_def)
  have m: "map_of ?fs ''regularMarketPrice'' = None"
    "map_of ?fs ''regularMarketChangePercent'' = None" "map_of ?fs ''currency'' = None"
    by simp_all
  from fulfilled_row_unvalidated [where yahoo = "always (Fulfils bare_payload)", OF parse_aapl i s]
  obtain data where
    r: "responded (GET_batch (always (Fulfils bare_payload)) [0] (Some ''aapl'')) =
          Some \<lparr>status = 200, body = DataBody data\<rparr>"
    and a: "\<forall>v. quote_task (?ts ! 0) (always (Fulfils bare_payload) 0 (?ts ! 0)) = Fulfilled v \<longrightarrow>
              data ! 0 = Success v \<and> ok (data ! 0)"
    and c: "\<forall>fs. always (Fulfils bare_payload) 0 (?ts ! 0) = Fulfils (Obj fs) \<longrightarrow>
              (\<exists>v. data ! 0 = Success v \<and>
                 (map_of fs ''regularMarketPrice'' = None \<longrightarrow> price v = Undefined) \<and>
                 (map_of fs ''regularMarketChangePercent'' = None \<longrightarrow> changePercent v = Undefined) \<and>
                 (map_of fs ''currency'' = None \<longrightarrow> currency v = Undefined))"
    by blast
  from c y m obtain v where v: "data ! 0 = Success v" "price v = Undefined"
    "changePercent v = Undefined" "currency v = Undefined"
    by blast
  then have "ok (data ! 0)" by simp
  with r v show ?thesis by blast
qed

section \<open>Claims about the history route\<close>

text \<open>
  Claim C9. The claim is that the range, lowercased and \<open>"1y"\<close> when absent, is checked
  against the four keys of the table, and that every other range is answered with 400
  and \<open>{ error: "Invalid range" }\<close> before any provider call. The check is
  \<open>!RANGE_TO_DAYS[range]\<close>, a property read that also finds what the table inherits: the
  ranges \<open>"constructor"\<close> and \<open>"__proto__"\<close> are no keys of the table, pass the check and
  reach the provider call, with a function or an object for the number of days.
\<close>

theorem history_inherited_range_accepted:
  "GET_history history_fails (Some ''aapl'') (Some ''constructor'') =
     \<lparr>historical_calls = [(''AAPL'', Builtin ''Object'')],
      history_response =
        Some \<lparr>status = 500,
              body = FailedBody ''Failed to fetch history'' (Str ''upstream failure'')\<rparr>\<rparr> \<and>
   GET_history history_fails (Some ''aapl'') (Some ''__proto__'') =
     \<lparr>historical_calls = [(''AAPL'', Builtin ''Object.prototype'')],
      history_response =
        Some \<lparr>status = 500,
              body = FailedBody ''Failed to fetch history'' (Str ''upstream failure'')\<rparr>\<rparr>"
proof -
  have t: "Some ''aapl'' = Some ''aapl''" "''aapl'' \<noteq> []" by simp_all
  have r: "or_default (Some ''constructor'') ''1y'' = ''constructor''"
    "or_default (Some ''__proto__'') ''1y'' = ''__proto__''"
    by (simp_all add: or_default_def)
  show ?thesis
    by (simp add: GET_history_checked [OF t] r case_examples inherited_keys RANGE_TO_DAYS_def
        inherited_def history_fails_def)
qed

end
